theory Spec2Isabelle
  imports Main "HOL-Library.Product_Lexorder" "HOL-Library.Multiset"
begin

section \<open>Strings, outcomes and the Unicode interface\<close>

text \<open>
  A Python \<open>str\<close> is a sequence of Unicode code points; a character is its code point.
  The tables of the program hold Greek letters, so a character cannot be an 8-bit
  \<^typ>\<open>char\<close>.
\<close>

type_synonym uchar = nat
type_synonym ustring = "uchar list"

text \<open>A \<open>dict\<close> keeps insertion order, which the loops over \<open>keys()\<close> depend on.\<close>

type_synonym ('k, 'v) dict = "('k \<times> 'v) list"

datatype error = IndexError | KeyError

text \<open>
  The outcome of a call: \<open>None\<close> when the call does not return (a \<open>while\<close> loop that
  runs forever), \<open>Some (Inl e)\<close> when it raises \<open>e\<close>, \<open>Some (Inr v)\<close> when it returns \<open>v\<close>.
\<close>

type_synonym 'a comp = "(error + 'a) option"

definition returns :: "'a \<Rightarrow> 'a comp" where
  "returns v = Some (Inr v)"

definition raises :: "error \<Rightarrow> 'a comp" where
  "raises e = Some (Inl e)"

definition bindc :: "'a comp \<Rightarrow> ('a \<Rightarrow> 'b comp) \<Rightarrow> 'b comp" where
  "bindc m f = (case m of None \<Rightarrow> None | Some (Inl e) \<Rightarrow> Some (Inl e) | Some (Inr v) \<Rightarrow> f v)"

text \<open>\<open>xs[0]\<close>: raises \<open>IndexError\<close> on the empty list.\<close>

definition item0 :: "'a list \<Rightarrow> 'a comp" where
  "item0 xs = (case xs of [] \<Rightarrow> raises IndexError | x # _ \<Rightarrow> returns x)"

text \<open>A \<open>for\<close> loop that appends one computed element per item.\<close>

fun mapc :: "('a \<Rightarrow> 'b comp) \<Rightarrow> 'a list \<Rightarrow> 'b list comp" where
  "mapc f [] = returns []"
| "mapc f (x # xs) = bindc (f x) (\<lambda>y. bindc (mapc f xs) (\<lambda>ys. returns (y # ys)))"

text \<open>
  \<open>str.lower\<close>, \<open>str.upper\<close> and \<open>str.isupper\<close> are driven by the Unicode character
  database of the interpreter, which is not part of the repository: the program is
  modelled over any such three functions.
\<close>

record unicode =
  lower :: "ustring \<Rightarrow> ustring"
  upper :: "ustring \<Rightarrow> ustring"
  isupper :: "ustring \<Rightarrow> bool"

text \<open>\<open>s.startswith(g)\<close>\<close>

fun startswith :: "ustring \<Rightarrow> ustring \<Rightarrow> bool" where
  "startswith s [] = True"
| "startswith [] (c # g) = False"
| "startswith (d # s) (c # g) = (d = c \<and> startswith s g)"

section \<open>The transducer \<open>replace\<close>\<close>

text \<open>
  The \<open>while len(s_in) > 0\<close> loop of \<open>replace\<close>. The inner \<open>for\<close> loop with its \<open>break\<close>
  finds the first key of the table, in insertion order, that \<open>s_in\<close> starts with. The
  alternatives are the characters of the table's value, a \<open>str\<close>. When the matched key
  is the empty string, \<open>s_in\<close> is not shortened and the loop never ends.
\<close>

partial_function (option) replace_loop ::
  "(ustring, ustring) dict \<Rightarrow> ustring \<Rightarrow> ustring list \<Rightarrow> ustring list comp" where
  "replace_loop replace_dict s_in s_out =
     (if s_in = [] then Some (Inr s_out)
      else (case find (\<lambda>(original_graph, alts). startswith s_in original_graph) replace_dict of
              Some (original_graph, alts) \<Rightarrow>
                replace_loop replace_dict (drop (length original_graph) s_in)
                  (concat (map (\<lambda>alternative. map (\<lambda>string. string @ [alternative]) s_out) alts))
            | None \<Rightarrow>
                replace_loop replace_dict (tl s_in) (map (\<lambda>string. string @ [hd s_in]) s_out)))"

text \<open>\<open>replace\<close> on a \<open>str\<close> argument, and on a \<open>list\<close> argument (the \<open>isinstance\<close> branch).\<close>

definition replace :: "ustring \<Rightarrow> (ustring, ustring) dict \<Rightarrow> ustring list comp" where
  "replace string replace_dict = replace_loop replace_dict string [[]]"

definition replace_in_list :: "ustring list \<Rightarrow> (ustring, ustring) dict \<Rightarrow> ustring list comp" where
  "replace_in_list strings replace_dict =
     bindc (mapc (\<lambda>s. replace s replace_dict) strings) (\<lambda>rs. returns (concat rs))"

section \<open>The grapheme tables\<close>

text \<open>
  The characters of the tables outside ASCII, by their Unicode names: the Greek small
  letters, the Greek vowels with tonos and dialytika, the Greek capital epsilon that
  stands in \<open>g_uglish_digraph\<close>, and the Latin vowels and \<open>w\<close> with grave and acute.
\<close>

abbreviation blank :: uchar where "blank \<equiv> 0x20"
abbreviation l_a_grave :: uchar where "l_a_grave \<equiv> 0xE0"
abbreviation l_a_acute :: uchar where "l_a_acute \<equiv> 0xE1"
abbreviation l_e_grave :: uchar where "l_e_grave \<equiv> 0xE8"
abbreviation l_e_acute :: uchar where "l_e_acute \<equiv> 0xE9"
abbreviation l_i_grave :: uchar where "l_i_grave \<equiv> 0xEC"
abbreviation l_i_acute :: uchar where "l_i_acute \<equiv> 0xED"
abbreviation l_o_grave :: uchar where "l_o_grave \<equiv> 0xF2"
abbreviation l_o_acute :: uchar where "l_o_acute \<equiv> 0xF3"
abbreviation l_u_grave :: uchar where "l_u_grave \<equiv> 0xF9"
abbreviation l_u_acute :: uchar where "l_u_acute \<equiv> 0xFA"
abbreviation g_iota_dialytika_tonos :: uchar where "g_iota_dialytika_tonos \<equiv> 0x390"
abbreviation g_capital_epsilon :: uchar where "g_capital_epsilon \<equiv> 0x395"
abbreviation g_alpha_tonos :: uchar where "g_alpha_tonos \<equiv> 0x3AC"
abbreviation g_epsilon_tonos :: uchar where "g_epsilon_tonos \<equiv> 0x3AD"
abbreviation g_eta_tonos :: uchar where "g_eta_tonos \<equiv> 0x3AE"
abbreviation g_iota_tonos :: uchar where "g_iota_tonos \<equiv> 0x3AF"
abbreviation g_upsilon_dialytika_tonos :: uchar where "g_upsilon_dialytika_tonos \<equiv> 0x3B0"
abbreviation g_alpha :: uchar where "g_alpha \<equiv> 0x3B1"
abbreviation g_beta :: uchar where "g_beta \<equiv> 0x3B2"
abbreviation g_gamma :: uchar where "g_gamma \<equiv> 0x3B3"
abbreviation g_delta :: uchar where "g_delta \<equiv> 0x3B4"
abbreviation g_epsilon :: uchar where "g_epsilon \<equiv> 0x3B5"
abbreviation g_zeta :: uchar where "g_zeta \<equiv> 0x3B6"
abbreviation g_eta :: uchar where "g_eta \<equiv> 0x3B7"
abbreviation g_theta :: uchar where "g_theta \<equiv> 0x3B8"
abbreviation g_iota :: uchar where "g_iota \<equiv> 0x3B9"
abbreviation g_kappa :: uchar where "g_kappa \<equiv> 0x3BA"
abbreviation g_lamda :: uchar where "g_lamda \<equiv> 0x3BB"
abbreviation g_mu :: uchar where "g_mu \<equiv> 0x3BC"
abbreviation g_nu :: uchar where "g_nu \<equiv> 0x3BD"
abbreviation g_xi :: uchar where "g_xi \<equiv> 0x3BE"
abbreviation g_omicron :: uchar where "g_omicron \<equiv> 0x3BF"
abbreviation g_pi :: uchar where "g_pi \<equiv> 0x3C0"
abbreviation g_rho :: uchar where "g_rho \<equiv> 0x3C1"
abbreviation g_final_sigma :: uchar where "g_final_sigma \<equiv> 0x3C2"
abbreviation g_sigma :: uchar where "g_sigma \<equiv> 0x3C3"
abbreviation g_tau :: uchar where "g_tau \<equiv> 0x3C4"
abbreviation g_upsilon :: uchar where "g_upsilon \<equiv> 0x3C5"
abbreviation g_phi :: uchar where "g_phi \<equiv> 0x3C6"
abbreviation g_chi :: uchar where "g_chi \<equiv> 0x3C7"
abbreviation g_psi :: uchar where "g_psi \<equiv> 0x3C8"
abbreviation g_omega :: uchar where "g_omega \<equiv> 0x3C9"
abbreviation g_iota_dialytika :: uchar where "g_iota_dialytika \<equiv> 0x3CA"
abbreviation g_upsilon_dialytika :: uchar where "g_upsilon_dialytika \<equiv> 0x3CB"
abbreviation g_omicron_tonos :: uchar where "g_omicron_tonos \<equiv> 0x3CC"
abbreviation g_upsilon_tonos :: uchar where "g_upsilon_tonos \<equiv> 0x3CD"
abbreviation g_omega_tonos :: uchar where "g_omega_tonos \<equiv> 0x3CE"
abbreviation l_w_grave :: uchar where "l_w_grave \<equiv> 0x1E81"
abbreviation l_w_acute :: uchar where "l_w_acute \<equiv> 0x1E83"

definition ascii :: "string \<Rightarrow> ustring" where
  "ascii s = map of_char s"

text \<open>
  \<open>str.isspace\<close> of one character and \<open>str.split()\<close> without arguments: the words
  between runs of whitespace.
\<close>

definition isspace :: "uchar \<Rightarrow> bool" where
  "isspace c = (c \<in> set [0x9, 0xA, 0xB, 0xC, 0xD, 0x1C, 0x1D, 0x1E, 0x1F, 0x20, 0x85, 0xA0,
     0x1680, 0x2000, 0x2001, 0x2002, 0x2003, 0x2004, 0x2005, 0x2006, 0x2007, 0x2008,
     0x2009, 0x200A, 0x2028, 0x2029, 0x202F, 0x205F, 0x3000])"

fun split_words :: "ustring \<Rightarrow> ustring \<Rightarrow> ustring list" where
  "split_words [] word = (if word = [] then [] else [word])"
| "split_words (c # s) word =
     (if isspace c then (if word = [] then split_words s [] else word # split_words s [])
      else split_words s (word @ [c]))"

definition split :: "ustring \<Rightarrow> ustring list" where
  "split s = split_words s []"

text \<open>\<open>d[k] = v\<close> on an insertion-ordered dictionary, \<open>d[k]\<close> and \<open>d.keys()\<close>.\<close>

fun setitem :: "('k, 'v) dict \<Rightarrow> 'k \<Rightarrow> 'v \<Rightarrow> ('k, 'v) dict" where
  "setitem [] k v = [(k, v)]"
| "setitem ((k', v') # d) k v = (if k' = k then (k', v) # d else (k', v') # setitem d k v)"

definition getitem :: "('k, 'v) dict \<Rightarrow> 'k \<Rightarrow> 'v comp" where
  "getitem d k = (case map_of d k of None \<Rightarrow> raises KeyError | Some v \<Rightarrow> returns v)"

definition keys :: "('k, 'v) dict \<Rightarrow> 'k list" where
  "keys d = map fst d"

text \<open>
  \<open>make_dictionary_from_strings\<close>: the loop over \<open>enumerate(orig_list)\<close> reads
  \<open>replace_list[i]\<close>, which raises when the second string has fewer words.
\<close>

fun fill_dictionary ::
  "(nat \<times> ustring) list \<Rightarrow> ustring list \<Rightarrow> (ustring, ustring) dict \<Rightarrow> (ustring, ustring) dict comp" where
  "fill_dictionary [] replace_list output_dict = returns output_dict"
| "fill_dictionary ((i, l) # rest) replace_list output_dict =
     (if i < length replace_list
      then fill_dictionary rest replace_list (setitem output_dict l (replace_list ! i))
      else raises IndexError)"

definition make_dictionary_from_strings :: "ustring \<Rightarrow> ustring \<Rightarrow> (ustring, ustring) dict comp" where
  "make_dictionary_from_strings original_string replace_string =
     fill_dictionary (enumerate 0 (split original_string)) (split replace_string) []"

text \<open>
  A module-level assignment \<open>name = call(...)\<close> binds the value the call returns; the
  module does not load when the call raises. Each call below returns (lemmas
  \<open>greek_accent_dictionary_made\<close> to \<open>l2u_dict_made\<close>).
\<close>

fun module_value :: "('k, 'v) dict comp \<Rightarrow> ('k, 'v) dict" where
  "module_value (Some (Inr d)) = d"
| "module_value _ = []"

definition greek_accented :: ustring where
  "greek_accented = [g_alpha_tonos, blank, g_epsilon_tonos, blank, g_eta_tonos, blank,
      g_iota_tonos, blank, g_iota_dialytika_tonos, blank, g_omicron_tonos, blank,
      g_upsilon_tonos, blank, g_upsilon_dialytika_tonos, blank, g_omega_tonos]"

definition greek_unaccented :: ustring where
  "greek_unaccented = [g_alpha, blank, g_epsilon, blank, g_eta, blank, g_iota, blank,
      g_iota_dialytika, blank, g_omicron, blank, g_upsilon, blank,
      g_upsilon_dialytika, blank, g_omega]"

definition lat_accented :: ustring where
  "lat_accented = [l_a_grave, blank, l_e_grave, blank, l_i_grave, blank, l_o_grave, blank,
      l_u_grave, blank, l_w_grave, blank, l_a_acute, blank, l_e_acute, blank,
      l_i_acute, blank, l_o_acute, blank, l_u_acute, blank, l_w_acute]"

definition lat_unaccented :: ustring where
  "lat_unaccented = ascii ''a e i o u w a e i o u w''"

definition greek_digraph :: ustring where
  "greek_digraph = [g_alpha, g_beta, blank, g_alpha, g_phi, blank, g_alpha, g_upsilon, blank,
      g_alpha, g_iota, blank, g_gamma, g_gamma, blank, g_gamma, g_kappa, blank,
      g_epsilon, g_beta, blank, g_epsilon, g_phi, blank, g_epsilon, g_upsilon,
      blank, g_epsilon, g_iota, blank, g_mu, g_pi, blank, g_mu, g_beta, blank,
      g_nu, g_delta, blank, g_nu, g_tau, blank, g_omicron, g_iota, blank,
      g_omicron, g_upsilon, blank, g_gamma, g_chi, blank]"

definition g_uglish_digraph :: ustring where
  "g_uglish_digraph =
     ascii ''A  A  A  e  G  G  E  '' @ [g_capital_epsilon] @ ascii ''  E  i  b  V  d  d  i  u  H  ''"

definition greek_monograph :: ustring where
  "greek_monograph = [g_alpha, blank, g_beta, blank, g_gamma, blank, g_delta, blank, g_epsilon,
      blank, g_zeta, blank, g_eta, blank, g_theta, blank, g_iota, blank,
      g_iota_dialytika, blank, g_kappa, blank, g_lamda, blank, g_mu, blank, g_nu,
      blank, g_xi, blank, g_omicron, blank, g_pi, blank, g_rho, blank, g_sigma,
      blank, g_final_sigma, blank, g_tau, blank, g_upsilon, blank,
      g_upsilon_dialytika, blank, g_phi, blank, g_chi, blank, g_psi, blank,
      g_omega, blank]"

definition g_uglish_monograph :: ustring where
  "g_uglish_monograph = ascii ''a v g d e z i 8 i i k l m n 3 o p r s s t i i f x 4 o ''"

definition lish_trigraph :: ustring where
  "lish_trigraph = ascii ''nch ''"

definition l_uglish_trigraph :: ustring where
  "l_uglish_trigraph = ascii ''H   ''"

definition lish_digraph :: ustring where
  "lish_digraph = ascii ''ai au af av ay ch ei eu ef ev ey gg gk ks ng nk mp mb mv nt nd oi ou ps th ''"

definition l_uglish_digraph :: ustring where
  "l_uglish_digraph = ascii ''e  A  A  A  A  x  i  E  E  E  E  G  G  3  G  G  b  bV V  d  d  i  u  4  8  ''"

definition lish_monograph :: ustring where
  "lish_monograph = ascii ''a b  c d e f g h  i j k l m n o p q r s t u v w x  y z 3 8 9 4 ''"

definition l_uglish_monograph :: ustring where
  "l_uglish_monograph = ascii ''a bv s d e f g xi i 3 k l m n o p q r s t i v o 3x i z 3 8 8 4 ''"

definition tiebreaker_tokens_lish :: ustring where
  "tiebreaker_tokens_lish = ascii ''y u h ai au ay ei eu ey oi ou mv''"

definition tiebreaker_tokens_greek :: ustring where
  "tiebreaker_tokens_greek = [g_upsilon, blank, g_upsilon, blank, g_eta, blank, g_alpha, g_iota, blank,
      g_alpha, g_upsilon, blank, g_alpha, g_upsilon, blank, g_epsilon, g_iota,
      blank, g_epsilon, g_upsilon, blank, g_epsilon, g_upsilon, blank, g_omicron,
      g_iota, blank, g_omicron, g_upsilon, blank, g_mu, g_beta]"

definition greek_accent_dictionary :: "(ustring, ustring) dict" where
  "greek_accent_dictionary =
     module_value (make_dictionary_from_strings greek_accented greek_unaccented)"

definition g2u_dict :: "(ustring, ustring) dict" where
  "g2u_dict =
     module_value (make_dictionary_from_strings (greek_digraph @ greek_monograph)
       (g_uglish_digraph @ g_uglish_monograph))"

text \<open>The loop over \<open>zip\<close> that fills \<open>tiebreaker_dict\<close>.\<close>

definition tiebreaker_dict :: "(ustring, ustring) dict" where
  "tiebreaker_dict =
     foldl (\<lambda>d (tok_lish, tok_greek). setitem d tok_lish tok_greek) []
       (zip (split tiebreaker_tokens_lish) (split tiebreaker_tokens_greek))"

definition lat_accent_dictionary :: "(ustring, ustring) dict" where
  "lat_accent_dictionary =
     module_value (make_dictionary_from_strings lat_accented lat_unaccented)"

definition l2u_dict :: "(ustring, ustring) dict" where
  "l2u_dict =
     module_value (make_dictionary_from_strings (lish_trigraph @ lish_digraph @ lish_monograph)
       (l_uglish_trigraph @ l_uglish_digraph @ l_uglish_monograph))"

section \<open>Classification and canonical forms\<close>

text \<open>\<open>sub in s\<close> on strings: \<open>sub\<close> occurs in \<open>s\<close> as a contiguous run.\<close>

fun contains :: "ustring \<Rightarrow> ustring \<Rightarrow> bool" where
  "contains [] sub = (sub = [])"
| "contains (c # s) sub = (startswith (c # s) sub \<or> contains s sub)"

definition is_greek_letter :: "ustring \<Rightarrow> bool" where
  "is_greek_letter char =
     (let alphabet = greek_monograph @ [blank] @ greek_accented
      in contains alphabet char \<and> char \<noteq> [blank])"

definition is_latin_letter :: "ustring \<Rightarrow> bool" where
  "is_latin_letter char =
     (let alphabet = lish_monograph @ [blank] @ lat_accented
      in contains alphabet char \<and> char \<noteq> [blank])"

definition is_greek :: "unicode \<Rightarrow> ustring \<Rightarrow> bool comp" where
  "is_greek U string =
     bindc (replace (lower U string) greek_accent_dictionary) (\<lambda>r.
     bindc (item0 r) (\<lambda>string.
     returns (list_all (\<lambda>letter. is_greek_letter [letter]) string)))"

text \<open>\<open>is_latin\<close> strips accents with the Greek accent table, as the source does.\<close>

definition is_latin :: "unicode \<Rightarrow> ustring \<Rightarrow> bool comp" where
  "is_latin U string =
     bindc (replace (lower U string) greek_accent_dictionary) (\<lambda>r.
     bindc (item0 r) (\<lambda>string.
     returns (list_all (\<lambda>letter. is_latin_letter [letter]) string)))"

definition greek_to_uglish :: "unicode \<Rightarrow> ustring \<Rightarrow> ustring list comp" where
  "greek_to_uglish U string =
     bindc (replace (lower U string) greek_accent_dictionary) (\<lambda>s.
     replace_in_list s g2u_dict)"

definition lish_to_uglish :: "unicode \<Rightarrow> ustring \<Rightarrow> ustring list comp" where
  "lish_to_uglish U string =
     bindc (replace (lower U string) lat_accent_dictionary) (\<lambda>s.
     replace_in_list s l2u_dict)"

section \<open>Tokenization and accent positions\<close>

text \<open>The second argument of \<open>tokenize_graphs\<close> is a dictionary or a string of graphs.\<close>

datatype graphs = GraphDict "(ustring, ustring) dict" | GraphString ustring

fun graph_list_of :: "graphs \<Rightarrow> ustring list" where
  "graph_list_of (GraphDict d) = keys d"
| "graph_list_of (GraphString s) = split s"

text \<open>
  The \<open>while len(word) > 0\<close> loop of \<open>tokenize_graphs\<close>; like the loop of \<open>replace\<close> it
  never ends when the first graph that matches is the empty string.
\<close>

partial_function (option) tokenize_loop ::
  "ustring list \<Rightarrow> ustring \<Rightarrow> ustring list \<Rightarrow> ustring list comp" where
  "tokenize_loop graph_list word token_list =
     (if word = [] then Some (Inr token_list)
      else (case find (\<lambda>graph. startswith word graph) graph_list of
              Some graph \<Rightarrow>
                tokenize_loop graph_list (drop (length graph) word) (token_list @ [graph])
            | None \<Rightarrow> tokenize_loop graph_list (tl word) (token_list @ [[hd word]])))"

definition tokenize_graphs :: "ustring \<Rightarrow> graphs \<Rightarrow> ustring list comp" where
  "tokenize_graphs word graph_string_or_dict =
     tokenize_loop (graph_list_of graph_string_or_dict) word []"

definition count_graphs :: "ustring \<Rightarrow> graphs \<Rightarrow> int comp" where
  "count_graphs word graph_string_or_dict =
     bindc (tokenize_graphs word graph_string_or_dict) (\<lambda>token_list.
     returns (int (length token_list)))"

text \<open>
  \<open>find_accent\<close>: the positions whose character occurs in one of the two strings of
  accented vowels. The test is \<open>l in greek_accented or l in lat_accented\<close> on strings
  whose vowels are separated by blanks.
\<close>

definition find_accent :: "ustring \<Rightarrow> nat list" where
  "find_accent string =
     map fst (filter (\<lambda>(pos, l). contains greek_accented [l] \<or> contains lat_accented [l])
       (enumerate 0 string))"

definition find_accent_graph_position :: "ustring \<Rightarrow> ustring \<Rightarrow> int comp" where
  "find_accent_graph_position word graph_string =
     (case find_accent word of
        [] \<Rightarrow> returns 100
      | accent_pos # _ \<Rightarrow>
          bindc (replace (take (accent_pos + 1) word) greek_accent_dictionary) (\<lambda>r.
          bindc (item0 r) (\<lambda>word.
          bindc (replace word lat_accent_dictionary) (\<lambda>r.
          bindc (item0 r) (\<lambda>word.
          count_graphs word (GraphString graph_string))))))"

section \<open>Lookup and ranking\<close>

text \<open>
  The index \<open>uglish_dict\<close> is loaded from a file that is not part of the sources: the
  program is modelled over any index. A \<open>KeyError\<close> of the lookup is caught.
\<close>

type_synonym index = "ustring \<rightharpoonup> ustring list"

definition find_possibilities :: "unicode \<Rightarrow> index \<Rightarrow> ustring \<Rightarrow> ustring list comp" where
  "find_possibilities U uglish_dict lat_string =
     bindc (lish_to_uglish U lat_string) (\<lambda>uglish.
     returns (concat (map (\<lambda>uglish_word.
       (case uglish_dict uglish_word of None \<Rightarrow> [] | Some greek_words \<Rightarrow> greek_words)) uglish)))"

text \<open>
  \<open>sorted\<close> is a stable sort, as is \<^const>\<open>sort_key\<close>; \<open>possibilities[i]\<close> raises when
  the list of metrics is the longer one.
\<close>

definition sort_possibilities_by :: "'a list \<Rightarrow> int list \<Rightarrow> 'a list comp" where
  "sort_possibilities_by possibilities metric_list =
     (let sorted_indices = map fst (sort_key snd (enumerate 0 metric_list))
      in mapc (\<lambda>i. if i < length possibilities then returns (possibilities ! i)
                    else raises IndexError) sorted_indices)"

definition sort_possibilities_by_accent :: "ustring \<Rightarrow> ustring list \<Rightarrow> ustring list comp" where
  "sort_possibilities_by_accent lat_string possibilities =
     (if length (find_accent lat_string) = 0 then returns possibilities
      else
        bindc (find_accent_graph_position lat_string
                 (lish_trigraph @ lish_digraph @ lish_monograph)) (\<lambda>lat_accent_position.
        bindc (mapc (\<lambda>greek_word.
                 bindc (find_accent_graph_position greek_word (greek_digraph @ greek_monograph))
                   (\<lambda>greek_accent_position.
                 returns (abs (greek_accent_position - lat_accent_position)))) possibilities)
          (\<lambda>greek_accent_position_differences.
        sort_possibilities_by possibilities greek_accent_position_differences)))"

text \<open>\<open>s.count(sub)\<close>: the occurrences of \<open>sub\<close> in \<open>s\<close> that do not overlap.\<close>

function str_count :: "ustring \<Rightarrow> ustring \<Rightarrow> nat" where
  "str_count s sub =
     (if sub = [] then length s + 1
      else if s = [] then 0
      else if startswith s sub then 1 + str_count (drop (length sub) s) sub
      else str_count (tl s) sub)"
  by pat_completeness auto
termination
  by (relation "measure (\<lambda>(s, sub). length s)") auto

declare str_count.simps [simp del]

definition sort_possibilities_by_length ::
  "unicode \<Rightarrow> ustring \<Rightarrow> ustring list \<Rightarrow> ustring list comp" where
  "sort_possibilities_by_length U lat_string possibilities =
     (let digraphs_to_monographs = split (ascii ''ch th ps'');
          lat_len = foldl (\<lambda>lat_len digraph. lat_len - int (str_count (lower U lat_string) digraph))
                      (int (length lat_string)) digraphs_to_monographs;
          greek_length_differences =
            map (\<lambda>greek_word. abs (int (length greek_word) - lat_len)) possibilities
      in sort_possibilities_by possibilities greek_length_differences)"

text \<open>
  The two nested loops of \<open>sort_possibilities_by_tiebreakers\<close>. The inner one reads
  \<open>tokenized_possibility[i]\<close> for every candidate, with no test of \<open>i\<close> against the
  candidate's number of tokens.
\<close>

fun check_possibilities ::
  "nat \<Rightarrow> ustring \<Rightarrow> (nat \<times> ustring list) list \<Rightarrow> int list \<Rightarrow> int list comp" where
  "check_possibilities i target_greek_tok [] inverse_probabilities = returns inverse_probabilities"
| "check_possibilities i target_greek_tok ((j, tokenized_possibility) # rest) inverse_probabilities =
     (if i < length tokenized_possibility
      then (if tokenized_possibility ! i = target_greek_tok
            then (if j < length inverse_probabilities
                  then check_possibilities i target_greek_tok rest
                         (inverse_probabilities[j := inverse_probabilities ! j - 1])
                  else raises IndexError)
            else check_possibilities i target_greek_tok rest inverse_probabilities)
      else raises IndexError)"

fun check_tokens ::
  "(nat \<times> ustring) list \<Rightarrow> ustring list list \<Rightarrow> int list \<Rightarrow> int list comp" where
  "check_tokens [] tokenized_possibilities inverse_probabilities = returns inverse_probabilities"
| "check_tokens ((i, tok) # rest) tokenized_possibilities inverse_probabilities =
     (case map_of tiebreaker_dict tok of
        None \<Rightarrow> check_tokens rest tokenized_possibilities inverse_probabilities
      | Some target_greek_tok \<Rightarrow>
          bindc (check_possibilities i target_greek_tok (enumerate 0 tokenized_possibilities)
                   inverse_probabilities) (\<lambda>inverse_probabilities.
          check_tokens rest tokenized_possibilities inverse_probabilities))"

definition sort_possibilities_by_tiebreakers ::
  "unicode \<Rightarrow> ustring \<Rightarrow> ustring list \<Rightarrow> ustring list comp" where
  "sort_possibilities_by_tiebreakers U lat_string possibilities =
     bindc (replace (lower U lat_string) lat_accent_dictionary) (\<lambda>r.
     bindc (item0 r) (\<lambda>lat_string.
     bindc (tokenize_graphs lat_string (GraphDict l2u_dict)) (\<lambda>tokenized_lat.
     bindc (mapc (\<lambda>possibility.
              bindc (replace (lower U possibility) greek_accent_dictionary) (\<lambda>r.
              bindc (item0 r) (\<lambda>s.
              tokenize_graphs s (GraphDict g2u_dict)))) possibilities) (\<lambda>tokenized_possibilities.
     bindc (check_tokens (enumerate 0 tokenized_lat) tokenized_possibilities
              (replicate (length possibilities) 100)) (\<lambda>inverse_probabilities.
     sort_possibilities_by possibilities inverse_probabilities)))))"

definition sorted_possibilities :: "unicode \<Rightarrow> index \<Rightarrow> ustring \<Rightarrow> ustring list comp" where
  "sorted_possibilities U uglish_dict lat_string =
     bindc (find_possibilities U uglish_dict lat_string) (\<lambda>possibilities.
     bindc (sort_possibilities_by_length U lat_string possibilities) (\<lambda>possibilities.
     bindc (sort_possibilities_by_accent lat_string possibilities) (\<lambda>possibilities.
     sort_possibilities_by_tiebreakers U lat_string possibilities)))"

section \<open>Translation of a text\<close>

text \<open>
  The inner function \<open>guess\<close>. \<open>guess_list[0]\<close> is read inside \<open>try\<close>, with the word
  itself as the fallback; \<open>word[0]\<close> and \<open>translated_word[0]\<close> are read outside of one.
\<close>

definition guess :: "unicode \<Rightarrow> index \<Rightarrow> ustring \<Rightarrow> ustring comp" where
  "guess U uglish_dict word =
     (case word of
        [] \<Rightarrow> raises IndexError
      | first # _ \<Rightarrow>
          (let capitalize = isupper U [first]
           in bindc (sorted_possibilities U uglish_dict word) (\<lambda>guess_list.
              (let translated_word = (case guess_list of [] \<Rightarrow> word | best # _ \<Rightarrow> best)
               in if capitalize
                  then (case translated_word of
                          [] \<Rightarrow> raises IndexError
                        | c # cs \<Rightarrow> returns (upper U [c] @ cs))
                  else returns translated_word))))"

text \<open>The loop over the characters of the text, with the state \<open>word\<close> and \<open>text_out\<close>.\<close>

fun translate_chars ::
  "unicode \<Rightarrow> index \<Rightarrow> ustring \<Rightarrow> ustring \<Rightarrow> ustring \<Rightarrow> ustring comp" where
  "translate_chars U uglish_dict [] word text_out =
     (if word \<noteq> [] then bindc (guess U uglish_dict word) (\<lambda>g. returns (text_out @ g))
      else returns text_out)"
| "translate_chars U uglish_dict (char # text) word text_out =
     (if \<not> is_latin_letter (lower U [char])
      then (if word \<noteq> []
            then bindc (guess U uglish_dict word) (\<lambda>g.
                 translate_chars U uglish_dict text [] (text_out @ g @ [char]))
            else translate_chars U uglish_dict text [] (text_out @ [char]))
      else translate_chars U uglish_dict text (word @ [char]) text_out)"

definition translate_text :: "unicode \<Rightarrow> index \<Rightarrow> ustring \<Rightarrow> ustring comp" where
  "translate_text U uglish_dict text = translate_chars U uglish_dict text [] []"

section \<open>The two loops as total functions\<close>

text \<open>
  The result of the loop of \<open>replace\<close> on a table without an empty key, and of the loop
  of \<open>tokenize_graphs\<close> on a list of graphs without the empty graph, as total functions
  (lemmas \<open>replace_loop_transduce\<close> and \<open>tokenize_loop_tokens\<close>). They are what the
  statements below say about the results of the loops.
\<close>

definition fan_out :: "ustring list \<Rightarrow> ustring \<Rightarrow> ustring list" where
  "fan_out out alts = concat (map (\<lambda>a. map (\<lambda>x. x @ [a]) out) alts)"

function transduce :: "(ustring, ustring) dict \<Rightarrow> ustring \<Rightarrow> ustring list \<Rightarrow> ustring list" where
  "transduce T [] out = out"
| "transduce T (c # s) out =
     (case find (\<lambda>(g, alts). startswith (c # s) g) T of
        Some (g, alts) \<Rightarrow>
          (if g = [] then out else transduce T (drop (length g) (c # s)) (fan_out out alts))
      | None \<Rightarrow> transduce T s (map (\<lambda>x. x @ [c]) out))"
  by pat_completeness auto
termination
  by (relation "measure (\<lambda>(T, s, out). length s)") auto

function tokens :: "ustring list \<Rightarrow> ustring \<Rightarrow> ustring list" where
  "tokens gl [] = []"
| "tokens gl (c # w) =
     (case find (\<lambda>g. startswith (c # w) g) gl of
        Some g \<Rightarrow> (if g = [] then [] else g # tokens gl (drop (length g) (c # w)))
      | None \<Rightarrow> [c] # tokens gl w)"
  by pat_completeness auto
termination
  by (relation "measure (\<lambda>(gl, w). length w)") auto

section \<open>An instance of the Unicode interface\<close>

text \<open>
  The case mappings on ASCII, on the letters of Latin-1 and on the Greek letters, for
  the accent position of a word and for the closed examples below. On strings of ASCII characters, of the Latin-1 letters
  U+00C0 to U+00FF, of the Greek capitals alpha to omega other than sigma (which CPython
  lowers to the final sigma at the end of a word), of the Greek small letters with or
  without accent and of the accented Latin letters of the tables, \<open>basic_lower\<close> is
  \<open>str.lower\<close>; on strings of ASCII characters and of the Greek letters alpha to omega
  without accent, \<open>basic_upper\<close> is \<open>str.upper\<close>; on strings of ASCII characters, of
  the Latin-1 letters U+00C0 to U+00FF and of Greek letters, \<open>basic_isupper\<close> is
  \<open>str.isupper\<close>.
\<close>

definition is_capital :: "uchar \<Rightarrow> bool" where
  "is_capital c = ((0x41 \<le> c \<and> c \<le> 0x5A) \<or> (0xC0 \<le> c \<and> c \<le> 0xDE \<and> c \<noteq> 0xD7)
     \<or> (0x391 \<le> c \<and> c \<le> 0x3A9 \<and> c \<noteq> 0x3A2))"

definition is_small :: "uchar \<Rightarrow> bool" where
  "is_small c = ((0x61 \<le> c \<and> c \<le> 0x7A) \<or> (0xDF \<le> c \<and> c \<le> 0xFF \<and> c \<noteq> 0xF7)
     \<or> c = 0x390 \<or> (0x3AC \<le> c \<and> c \<le> 0x3CE))"

definition basic_lower :: "ustring \<Rightarrow> ustring" where
  "basic_lower s = map (\<lambda>c. if is_capital c then c + 0x20 else c) s"

definition basic_upper :: "ustring \<Rightarrow> ustring" where
  "basic_upper s =
     map (\<lambda>c. if (0x61 \<le> c \<and> c \<le> 0x7A) \<or> (0x3B1 \<le> c \<and> c \<le> 0x3C9 \<and> c \<noteq> 0x3C2) then c - 0x20
              else if c = 0x3C2 then 0x3A3 else c) s"

definition basic_isupper :: "ustring \<Rightarrow> bool" where
  "basic_isupper s = (list_ex is_capital s \<and> \<not> list_ex is_small s)"

definition unicode_basic :: unicode where
  "unicode_basic = \<lparr>lower = basic_lower, upper = basic_upper, isupper = basic_isupper\<rparr>"

section \<open>Accents, in the words of the specification\<close>

text \<open>
  The accented small letters, which are the words of \<open>greek_accented\<close> and
  \<open>lat_accented\<close>, and the capital letters with the same accents: the Greek capitals
  alpha, epsilon, eta, iota, omicron, upsilon and omega with tonos, and the Latin
  capitals A, E, I, O, U and W with grave and with acute. A letter carries an accent
  mark when it is one of either.
\<close>

definition accented_letters :: "uchar list" where
  "accented_letters =
     [g_alpha_tonos, g_epsilon_tonos, g_eta_tonos, g_iota_tonos, g_iota_dialytika_tonos,
      g_omicron_tonos, g_upsilon_tonos, g_upsilon_dialytika_tonos, g_omega_tonos,
      l_a_grave, l_e_grave, l_i_grave, l_o_grave, l_u_grave, l_w_grave,
      l_a_acute, l_e_acute, l_i_acute, l_o_acute, l_u_acute, l_w_acute]"

definition is_accented :: "uchar \<Rightarrow> bool" where
  "is_accented c = (c \<in> set accented_letters)"

definition capital_accented_letters :: "uchar list" where
  "capital_accented_letters =
     [0x386, 0x388, 0x389, 0x38A, 0x38C, 0x38E, 0x38F,
      0xC0, 0xC8, 0xCC, 0xD2, 0xD9, 0x1E80, 0xC1, 0xC9, 0xCD, 0xD3, 0xDA, 0x1E82]"

definition carries_accent_mark :: "uchar \<Rightarrow> bool" where
  "carries_accent_mark c = (c \<in> set accented_letters \<or> c \<in> set capital_accented_letters)"

text \<open>
  Every accented letter with the letter it is without its accent (the two letters with
  dialytika and tonos keep the dialytika), written out letter by letter.
\<close>

definition without_accent :: "(uchar \<times> uchar) list" where
  "without_accent =
     [(g_alpha_tonos, g_alpha), (g_epsilon_tonos, g_epsilon), (g_eta_tonos, g_eta),
      (g_iota_tonos, g_iota), (g_iota_dialytika_tonos, g_iota_dialytika),
      (g_omicron_tonos, g_omicron), (g_upsilon_tonos, g_upsilon),
      (g_upsilon_dialytika_tonos, g_upsilon_dialytika), (g_omega_tonos, g_omega),
      (l_a_grave, 0x61), (l_e_grave, 0x65), (l_i_grave, 0x69), (l_o_grave, 0x6F),
      (l_u_grave, 0x75), (l_w_grave, 0x77),
      (l_a_acute, 0x61), (l_e_acute, 0x65), (l_i_acute, 0x69), (l_o_acute, 0x6F),
      (l_u_acute, 0x75), (l_w_acute, 0x77),
      (0x386, 0x391), (0x388, 0x395), (0x389, 0x397), (0x38A, 0x399), (0x38C, 0x39F),
      (0x38E, 0x3A5), (0x38F, 0x3A9),
      (0xC0, 0x41), (0xC8, 0x45), (0xCC, 0x49), (0xD2, 0x4F), (0xD9, 0x55), (0x1E80, 0x57),
      (0xC1, 0x41), (0xC9, 0x45), (0xCD, 0x49), (0xD3, 0x4F), (0xDA, 0x55), (0x1E82, 0x57)]"

definition unaccent_letter :: "uchar \<Rightarrow> uchar" where
  "unaccent_letter c = (case map_of without_accent c of None \<Rightarrow> c | Some v \<Rightarrow> v)"

text \<open>
  The position of the first letter of a word that carries an accent mark, and the
  accent position of a word: the number of graphs of its prefix up to and including
  that letter, with the accents taken off and in small letters, or 100 when no letter
  carries one.
\<close>

fun first_accent :: "ustring \<Rightarrow> nat option" where
  "first_accent [] = None"
| "first_accent (c # s) =
     (if carries_accent_mark c then Some 0 else map_option Suc (first_accent s))"

definition accent_position :: "ustring \<Rightarrow> ustring \<Rightarrow> int" where
  "accent_position word graph_string =
     (case first_accent word of
        None \<Rightarrow> 100
      | Some n \<Rightarrow>
          int (length (tokens (split graph_string)
            (basic_lower (map unaccent_letter (take (Suc n) word))))))"

text \<open>
  A word that holds no blank and that is in small letters up to and including its
  first letter with an accent mark.
\<close>

definition small_to_accent :: "ustring \<Rightarrow> bool" where
  "small_to_accent word =
     (list_all (\<lambda>c. c \<noteq> blank) word \<and>
      (case first_accent word of
         None \<Rightarrow> True
       | Some n \<Rightarrow>
           list_all (\<lambda>c. \<not> is_capital c \<and> c \<notin> set capital_accented_letters)
             (take (Suc n) word)))"

text \<open>A table of single letters of the program, read as a map on characters.\<close>

definition strip :: "(ustring, ustring) dict \<Rightarrow> uchar \<Rightarrow> uchar" where
  "strip T c = (case map_of T [c] of Some [v] \<Rightarrow> v | _ \<Rightarrow> c)"

text \<open>
  A table whose keys and values are single letters, and the accent test of
  \<open>find_accent\<close> on one character.
\<close>

definition single_letters :: "(ustring, ustring) dict \<Rightarrow> bool" where
  "single_letters T = list_all (\<lambda>(k, v). length k = 1 \<and> length v = 1) T"

definition accent_mark :: "uchar \<Rightarrow> bool" where
  "accent_mark c = (c \<in> set greek_accented \<or> c \<in> set lat_accented)"

section \<open>The ranking metrics, in the words of the specification\<close>

text \<open>
  The number of positions of a string at which a digraph occurs, the adjusted length of
  the Latin word, and the length difference of a candidate.
\<close>

fun occurrences :: "ustring \<Rightarrow> ustring \<Rightarrow> nat" where
  "occurrences [] sub = 0"
| "occurrences (c # s) sub = (if startswith (c # s) sub then 1 else 0) + occurrences s sub"

definition adjusted_latin_length :: "unicode \<Rightarrow> ustring \<Rightarrow> int" where
  "adjusted_latin_length U lat_string =
     int (length lat_string) - int (occurrences (lower U lat_string) (ascii ''ch''))
       - int (occurrences (lower U lat_string) (ascii ''th''))
       - int (occurrences (lower U lat_string) (ascii ''ps''))"

definition length_difference :: "unicode \<Rightarrow> ustring \<Rightarrow> ustring \<Rightarrow> int" where
  "length_difference U lat_string greek_word =
     abs (int (length greek_word) - adjusted_latin_length U lat_string)"

text \<open>
  The graphs of the accent-stripped lowercased Latin word and of a candidate, the
  number of tiebreaker positions of the Latin word at which the candidate has the
  expected Greek graph, the score of a candidate, and the condition that the candidate
  has a token at every tiebreaker position of the Latin word.
\<close>

definition lat_tokens :: "unicode \<Rightarrow> ustring \<Rightarrow> ustring list" where
  "lat_tokens U lat_string =
     tokens (keys l2u_dict) (map (strip lat_accent_dictionary) (lower U lat_string))"

definition greek_tokens :: "unicode \<Rightarrow> ustring \<Rightarrow> ustring list" where
  "greek_tokens U possibility =
     tokens (keys g2u_dict) (map (strip greek_accent_dictionary) (lower U possibility))"

definition tiebreaker_matches :: "(nat \<times> ustring) list \<Rightarrow> ustring list \<Rightarrow> nat" where
  "tiebreaker_matches positions tokenized_possibility =
     length (filter (\<lambda>(i, tok).
       (case map_of tiebreaker_dict tok of
          None \<Rightarrow> False
        | Some target \<Rightarrow> i < length tokenized_possibility \<and> tokenized_possibility ! i = target))
       positions)"

definition tiebreaker_score :: "unicode \<Rightarrow> ustring \<Rightarrow> ustring \<Rightarrow> int" where
  "tiebreaker_score U lat_string possibility =
     100 - int (tiebreaker_matches (enumerate 0 (lat_tokens U lat_string))
                  (greek_tokens U possibility))"

definition tokens_suffice :: "(nat \<times> ustring) list \<Rightarrow> ustring list \<Rightarrow> bool" where
  "tokens_suffice positions tokenized_possibility =
     list_all (\<lambda>(i, tok). map_of tiebreaker_dict tok = None \<or> i < length tokenized_possibility)
       positions"

text \<open>
  The value that \<open>find_accent_graph_position\<close> returns on any string and the metric
  that the accent stage computes from it; the accent-position difference of a
  candidate, by the accent positions of the candidate and of the Latin word.
\<close>

definition graph_position :: "ustring \<Rightarrow> ustring \<Rightarrow> int" where
  "graph_position word graph_string =
     (case find_accent word of
        [] \<Rightarrow> 100
      | accent_pos # _ \<Rightarrow>
          int (length (tokens (split graph_string)
            (map (strip lat_accent_dictionary)
               (map (strip greek_accent_dictionary) (take (Suc accent_pos) word))))))"

definition accent_metric :: "ustring \<Rightarrow> ustring \<Rightarrow> int" where
  "accent_metric lat_string greek_word =
     abs (graph_position greek_word (greek_digraph @ greek_monograph)
          - graph_position lat_string (lish_trigraph @ lish_digraph @ lish_monograph))"

definition accent_difference :: "ustring \<Rightarrow> ustring \<Rightarrow> int" where
  "accent_difference lat_string greek_word =
     abs (accent_position greek_word (greek_digraph @ greek_monograph)
          - accent_position lat_string (lish_trigraph @ lish_digraph @ lish_monograph))"

section \<open>Segments and candidates of a word\<close>

text \<open>
  The test of the segmenter on a character of the text, and the characters that
  \<open>is_latin_letter\<close> and \<open>is_greek_letter\<close> accept, written out: the words of
  \<open>lish_monograph\<close> and \<open>lat_accented\<close>, and of \<open>greek_monograph\<close> and \<open>greek_accented\<close>.
\<close>

definition latin_classified :: "unicode \<Rightarrow> uchar \<Rightarrow> bool" where
  "latin_classified U c = is_latin_letter (lower U [c])"

definition latin_letters :: "uchar list" where
  "latin_letters = ascii ''abcdefghijklmnopqrstuvwxyz3894'' @
     [l_a_grave, l_e_grave, l_i_grave, l_o_grave, l_u_grave, l_w_grave,
      l_a_acute, l_e_acute, l_i_acute, l_o_acute, l_u_acute, l_w_acute]"

definition greek_letters :: "uchar list" where
  "greek_letters =
     [g_alpha, g_beta, g_gamma, g_delta, g_epsilon, g_zeta, g_eta, g_theta, g_iota,
      g_iota_dialytika, g_kappa, g_lamda, g_mu, g_nu, g_xi, g_omicron, g_pi, g_rho,
      g_sigma, g_final_sigma, g_tau, g_upsilon, g_upsilon_dialytika, g_phi, g_chi, g_psi,
      g_omega,
      g_alpha_tonos, g_epsilon_tonos, g_eta_tonos, g_iota_tonos, g_iota_dialytika_tonos,
      g_omicron_tonos, g_upsilon_tonos, g_upsilon_dialytika_tonos, g_omega_tonos]"

text \<open>
  What \<open>translate_text\<close> does with the word buffer at a boundary and at the end of the
  text: nothing when it is empty, \<open>guess\<close> otherwise.
\<close>

definition flush :: "unicode \<Rightarrow> index \<Rightarrow> ustring \<Rightarrow> ustring comp" where
  "flush U uglish_dict word = (if word = [] then returns [] else guess U uglish_dict word)"

text \<open>
  The canonical forms that \<open>lish_to_uglish\<close> returns and the candidates that
  \<open>find_possibilities\<close> returns, as total functions.
\<close>

definition uglish_forms :: "unicode \<Rightarrow> ustring \<Rightarrow> ustring list" where
  "uglish_forms U lat_string =
     transduce l2u_dict (map (strip lat_accent_dictionary) (lower U lat_string)) [[]]"

definition candidates :: "unicode \<Rightarrow> index \<Rightarrow> ustring \<Rightarrow> ustring list" where
  "candidates U uglish_dict lat_string =
     concat (map (\<lambda>uglish_word.
       (case uglish_dict uglish_word of None \<Rightarrow> [] | Some greek_words \<Rightarrow> greek_words))
       (uglish_forms U lat_string))"

section \<open>Outcomes: basic facts\<close>

lemma bindc_returns [simp]: "bindc (returns v) f = f v"
  by (simp add: bindc_def returns_def)

lemma bindc_raises [simp]: "bindc (raises e) f = raises e"
  by (simp add: bindc_def raises_def)

lemma bindc_None [simp]: "bindc None f = None"
  by (simp add: bindc_def)

lemma returns_inject [simp]: "(returns a = returns b) = (a = b)"
  by (simp add: returns_def)

lemma returns_not_raises [simp]: "returns a \<noteq> raises e" "raises e \<noteq> returns a"
  by (simp_all add: returns_def raises_def)

lemma returns_not_None [simp]: "returns a \<noteq> None" "None \<noteq> returns a"
  by (simp_all add: returns_def)

lemma raises_not_None [simp]: "raises e \<noteq> None" "None \<noteq> raises e"
  by (simp_all add: raises_def)

lemma mapc_returns: "(\<And>x. x \<in> set xs \<Longrightarrow> f x = returns (g x)) \<Longrightarrow> mapc f xs = returns (map g xs)"
  by (induction xs) simp_all

section \<open>The transducer terminates on tables without an empty key\<close>

lemma startswith_Nil [simp]: "startswith [] g = (g = [])"
  by (cases g) simp_all

lemma startswith_iff: "startswith s g = (take (length g) s = g)"
  by (induction s g rule: startswith.induct) auto

lemma replace_loop_Nil [simp]: "replace_loop T [] out = returns out"
  by (subst replace_loop.simps) (simp add: returns_def)

lemma replace_loop_match:
  "s \<noteq> [] \<Longrightarrow> find (\<lambda>(g, alts). startswith s g) T = Some (g, alts) \<Longrightarrow>
   replace_loop T s out =
     replace_loop T (drop (length g) s) (concat (map (\<lambda>a. map (\<lambda>x. x @ [a]) out) alts))"
  by (subst replace_loop.simps) simp

lemma replace_loop_nomatch:
  "s \<noteq> [] \<Longrightarrow> find (\<lambda>(g, alts). startswith s g) T = None \<Longrightarrow>
   replace_loop T s out = replace_loop T (tl s) (map (\<lambda>x. x @ [hd s]) out)"
  by (subst replace_loop.simps) simp

lemma fan_out_nonempty:
  "out \<noteq> [] \<Longrightarrow> alts \<noteq> [] \<Longrightarrow> concat (map (\<lambda>a. map (\<lambda>x. x @ [a]) out) alts) \<noteq> []"
  by (cases alts) simp_all

lemma replace_loop_nonempty:
  assumes T: "\<And>k v. (k, v) \<in> set T \<Longrightarrow> k \<noteq> [] \<and> v \<noteq> []"
  shows "out \<noteq> [] \<Longrightarrow> \<exists>r. replace_loop T s out = returns r \<and> r \<noteq> []"
proof (induction "length s" arbitrary: s out rule: less_induct)
  case less
  show ?case
  proof (cases "s = []")
    case True
    with less.prems show ?thesis by simp
  next
    case False
    show ?thesis
    proof (cases "find (\<lambda>(g, alts). startswith s g) T")
      case None
      have "length (tl s) < length s" using False by simp
      moreover have "map (\<lambda>x. x @ [hd s]) out \<noteq> []" using less.prems by simp
      ultimately show ?thesis
        using less.hyps replace_loop_nomatch [OF False None] by metis
    next
      case (Some p)
      obtain g alts where p: "p = (g, alts)" by (cases p)
      from Some p have "(g, alts) \<in> set T"
        by (auto simp: find_Some_iff in_set_conv_nth)
      with T have g: "g \<noteq> []" and alts: "alts \<noteq> []" by auto
      have "length (drop (length g) s) < length s" using False g by simp
      moreover have "concat (map (\<lambda>a. map (\<lambda>x. x @ [a]) out) alts) \<noteq> []"
        using less.prems alts by (rule fan_out_nonempty)
      ultimately show ?thesis
        using less.hyps replace_loop_match [OF False Some [unfolded p]] by metis
    qed
  qed
qed

text \<open>With an empty key matched first, the loop makes no progress and never returns.\<close>

lemma replace_loop_diverges:
  assumes "replace_loop T s out = Some y"
  shows "s = [] \<or> (\<forall>alts. find (\<lambda>(g, alts). startswith s g) T \<noteq> Some ([], alts))"
  using assms
proof (induction rule: replace_loop.raw_induct [rotated 1, consumes 1])
  case (1 replace_loop' T s out y)
  show ?case
  proof (cases "s = []")
    case True
    then show ?thesis by simp
  next
    case False
    show ?thesis
    proof (rule disjI2, rule allI, rule notI)
      fix alts
      assume f: "find (\<lambda>(g, alts). startswith s g) T = Some ([], alts)"
      with 1(2) False
      have "replace_loop' T s (concat (map (\<lambda>a. map (\<lambda>x. x @ [a]) out) alts)) = Some y"
        by simp
      from 1(1) [OF this] False f show False by simp
    qed
  qed
qed

lemma find_in_set: "find P xs = Some x \<Longrightarrow> x \<in> set xs"
  by (auto simp: find_Some_iff)

lemma replace_loop_transduce:
  "[] \<notin> set (keys T) \<Longrightarrow> replace_loop T s out = returns (transduce T s out)"
proof (induction T s out rule: transduce.induct)
  case (1 T out)
  show ?case by simp
next
  case (2 T c s out)
  show ?case
  proof (cases "find (\<lambda>(g, alts). startswith (c # s) g) T")
    case None
    with 2(1) [OF None "2.prems"] show ?thesis
      using replace_loop_nomatch [of "c # s" T out] by simp
  next
    case (Some p)
    obtain g alts where p: "p = (g, alts)" by (cases p)
    from Some p have "(g, alts) \<in> set T" by (auto dest: find_in_set)
    with "2.prems" have g: "g \<noteq> []" by (force simp: keys_def)
    from 2(2) [OF Some [unfolded p] refl g "2.prems"] g Some p show ?thesis
      using replace_loop_match [of "c # s" T g alts out] by (simp add: fan_out_def)
  qed
qed

lemma tokenize_loop_tokens:
  "[] \<notin> set gl \<Longrightarrow> tokenize_loop gl w acc = returns (acc @ tokens gl w)"
proof (induction gl w arbitrary: acc rule: tokens.induct)
  case (1 gl)
  show ?case by (subst tokenize_loop.simps) (simp add: returns_def)
next
  case (2 gl c w)
  show ?case
  proof (cases "find (\<lambda>g. startswith (c # w) g) gl")
    case None
    with 2(1) [OF None "2.prems", of "acc @ [[c]]"] show ?thesis
      by (subst tokenize_loop.simps) simp
  next
    case (Some g)
    then have "g \<in> set gl" by (rule find_in_set)
    with "2.prems" have g: "g \<noteq> []" by auto
    from 2(2) [OF Some g "2.prems", of "acc @ [g]"] Some g show ?thesis
      by (subst tokenize_loop.simps) simp
  qed
qed

section \<open>The tables, evaluated\<close>

lemma ascii_Nil [simp]: "ascii [] = []"
  by (simp add: ascii_def)

lemma ascii_Cons [simp]: "ascii (c # s) = of_char c # ascii s"
  by (simp add: ascii_def)

lemma module_value_returns [simp]: "module_value (returns d) = d"
  by (simp add: returns_def)

lemma greek_accent_dictionary_made:
  "make_dictionary_from_strings greek_accented greek_unaccented =
   returns
    [([g_alpha_tonos], [g_alpha]), ([g_epsilon_tonos], [g_epsilon]),
     ([g_eta_tonos], [g_eta]), ([g_iota_tonos], [g_iota]),
     ([g_iota_dialytika_tonos], [g_iota_dialytika]), ([g_omicron_tonos], [g_omicron]),
     ([g_upsilon_tonos], [g_upsilon]), ([g_upsilon_dialytika_tonos], [g_upsilon_dialytika]),
     ([g_omega_tonos], [g_omega])]"
  by (simp add: make_dictionary_from_strings_def split_def isspace_def enumerate_eq_zip greek_accented_def greek_unaccented_def)

lemma greek_accent_dictionary_eq:
  "greek_accent_dictionary =
    [([g_alpha_tonos], [g_alpha]), ([g_epsilon_tonos], [g_epsilon]),
     ([g_eta_tonos], [g_eta]), ([g_iota_tonos], [g_iota]),
     ([g_iota_dialytika_tonos], [g_iota_dialytika]), ([g_omicron_tonos], [g_omicron]),
     ([g_upsilon_tonos], [g_upsilon]), ([g_upsilon_dialytika_tonos], [g_upsilon_dialytika]),
     ([g_omega_tonos], [g_omega])]"
  by (simp add: greek_accent_dictionary_def greek_accent_dictionary_made)

lemma lat_accent_dictionary_made:
  "make_dictionary_from_strings lat_accented lat_unaccented =
   returns
    [([l_a_grave], ascii ''a''), ([l_e_grave], ascii ''e''), ([l_i_grave], ascii ''i''),
     ([l_o_grave], ascii ''o''), ([l_u_grave], ascii ''u''), ([l_w_grave], ascii ''w''),
     ([l_a_acute], ascii ''a''), ([l_e_acute], ascii ''e''), ([l_i_acute], ascii ''i''),
     ([l_o_acute], ascii ''o''), ([l_u_acute], ascii ''u''), ([l_w_acute], ascii ''w'')]"
  by (simp add: make_dictionary_from_strings_def split_def isspace_def enumerate_eq_zip lat_accented_def lat_unaccented_def)

lemma lat_accent_dictionary_eq:
  "lat_accent_dictionary =
    [([l_a_grave], ascii ''a''), ([l_e_grave], ascii ''e''), ([l_i_grave], ascii ''i''),
     ([l_o_grave], ascii ''o''), ([l_u_grave], ascii ''u''), ([l_w_grave], ascii ''w''),
     ([l_a_acute], ascii ''a''), ([l_e_acute], ascii ''e''), ([l_i_acute], ascii ''i''),
     ([l_o_acute], ascii ''o''), ([l_u_acute], ascii ''u''), ([l_w_acute], ascii ''w'')]"
  by (simp add: lat_accent_dictionary_def lat_accent_dictionary_made)

lemma g2u_dict_made:
  "make_dictionary_from_strings (greek_digraph @ greek_monograph)
     (g_uglish_digraph @ g_uglish_monograph) =
   returns
    [([g_alpha, g_beta], ascii ''A''), ([g_alpha, g_phi], ascii ''A''),
     ([g_alpha, g_upsilon], ascii ''A''), ([g_alpha, g_iota], ascii ''e''),
     ([g_gamma, g_gamma], ascii ''G''), ([g_gamma, g_kappa], ascii ''G''),
     ([g_epsilon, g_beta], ascii ''E''), ([g_epsilon, g_phi], [g_capital_epsilon]),
     ([g_epsilon, g_upsilon], ascii ''E''), ([g_epsilon, g_iota], ascii ''i''),
     ([g_mu, g_pi], ascii ''b''), ([g_mu, g_beta], ascii ''V''),
     ([g_nu, g_delta], ascii ''d''), ([g_nu, g_tau], ascii ''d''),
     ([g_omicron, g_iota], ascii ''i''), ([g_omicron, g_upsilon], ascii ''u''),
     ([g_gamma, g_chi], ascii ''H''), ([g_alpha], ascii ''a''),
     ([g_beta], ascii ''v''), ([g_gamma], ascii ''g''),
     ([g_delta], ascii ''d''), ([g_epsilon], ascii ''e''),
     ([g_zeta], ascii ''z''), ([g_eta], ascii ''i''),
     ([g_theta], ascii ''8''), ([g_iota], ascii ''i''),
     ([g_iota_dialytika], ascii ''i''), ([g_kappa], ascii ''k''),
     ([g_lamda], ascii ''l''), ([g_mu], ascii ''m''),
     ([g_nu], ascii ''n''), ([g_xi], ascii ''3''),
     ([g_omicron], ascii ''o''), ([g_pi], ascii ''p''),
     ([g_rho], ascii ''r''), ([g_sigma], ascii ''s''),
     ([g_final_sigma], ascii ''s''), ([g_tau], ascii ''t''),
     ([g_upsilon], ascii ''i''), ([g_upsilon_dialytika], ascii ''i''),
     ([g_phi], ascii ''f''), ([g_chi], ascii ''x''),
     ([g_psi], ascii ''4''), ([g_omega], ascii ''o'')]"
  by (simp add: make_dictionary_from_strings_def split_def isspace_def enumerate_eq_zip greek_digraph_def greek_monograph_def g_uglish_digraph_def g_uglish_monograph_def)

lemma g2u_dict_eq:
  "g2u_dict =
    [([g_alpha, g_beta], ascii ''A''), ([g_alpha, g_phi], ascii ''A''),
     ([g_alpha, g_upsilon], ascii ''A''), ([g_alpha, g_iota], ascii ''e''),
     ([g_gamma, g_gamma], ascii ''G''), ([g_gamma, g_kappa], ascii ''G''),
     ([g_epsilon, g_beta], ascii ''E''), ([g_epsilon, g_phi], [g_capital_epsilon]),
     ([g_epsilon, g_upsilon], ascii ''E''), ([g_epsilon, g_iota], ascii ''i''),
     ([g_mu, g_pi], ascii ''b''), ([g_mu, g_beta], ascii ''V''),
     ([g_nu, g_delta], ascii ''d''), ([g_nu, g_tau], ascii ''d''),
     ([g_omicron, g_iota], ascii ''i''), ([g_omicron, g_upsilon], ascii ''u''),
     ([g_gamma, g_chi], ascii ''H''), ([g_alpha], ascii ''a''),
     ([g_beta], ascii ''v''), ([g_gamma], ascii ''g''),
     ([g_delta], ascii ''d''), ([g_epsilon], ascii ''e''),
     ([g_zeta], ascii ''z''), ([g_eta], ascii ''i''),
     ([g_theta], ascii ''8''), ([g_iota], ascii ''i''),
     ([g_iota_dialytika], ascii ''i''), ([g_kappa], ascii ''k''),
     ([g_lamda], ascii ''l''), ([g_mu], ascii ''m''),
     ([g_nu], ascii ''n''), ([g_xi], ascii ''3''),
     ([g_omicron], ascii ''o''), ([g_pi], ascii ''p''),
     ([g_rho], ascii ''r''), ([g_sigma], ascii ''s''),
     ([g_final_sigma], ascii ''s''), ([g_tau], ascii ''t''),
     ([g_upsilon], ascii ''i''), ([g_upsilon_dialytika], ascii ''i''),
     ([g_phi], ascii ''f''), ([g_chi], ascii ''x''),
     ([g_psi], ascii ''4''), ([g_omega], ascii ''o'')]"
  by (simp add: g2u_dict_def g2u_dict_made)

lemma l2u_dict_made:
  "make_dictionary_from_strings (lish_trigraph @ lish_digraph @ lish_monograph)
     (l_uglish_trigraph @ l_uglish_digraph @ l_uglish_monograph) =
   returns
    [(ascii ''nch'', ascii ''H''), (ascii ''ai'', ascii ''e''), (ascii ''au'', ascii ''A''), (ascii ''af'', ascii ''A''),
     (ascii ''av'', ascii ''A''), (ascii ''ay'', ascii ''A''), (ascii ''ch'', ascii ''x''), (ascii ''ei'', ascii ''i''),
     (ascii ''eu'', ascii ''E''), (ascii ''ef'', ascii ''E''), (ascii ''ev'', ascii ''E''), (ascii ''ey'', ascii ''E''),
     (ascii ''gg'', ascii ''G''), (ascii ''gk'', ascii ''G''), (ascii ''ks'', ascii ''3''), (ascii ''ng'', ascii ''G''),
     (ascii ''nk'', ascii ''G''), (ascii ''mp'', ascii ''b''), (ascii ''mb'', ascii ''bV''), (ascii ''mv'', ascii ''V''),
     (ascii ''nt'', ascii ''d''), (ascii ''nd'', ascii ''d''), (ascii ''oi'', ascii ''i''), (ascii ''ou'', ascii ''u''),
     (ascii ''ps'', ascii ''4''), (ascii ''th'', ascii ''8''), (ascii ''a'', ascii ''a''), (ascii ''b'', ascii ''bv''),
     (ascii ''c'', ascii ''s''), (ascii ''d'', ascii ''d''), (ascii ''e'', ascii ''e''), (ascii ''f'', ascii ''f''),
     (ascii ''g'', ascii ''g''), (ascii ''h'', ascii ''xi''), (ascii ''i'', ascii ''i''), (ascii ''j'', ascii ''3''),
     (ascii ''k'', ascii ''k''), (ascii ''l'', ascii ''l''), (ascii ''m'', ascii ''m''), (ascii ''n'', ascii ''n''),
     (ascii ''o'', ascii ''o''), (ascii ''p'', ascii ''p''), (ascii ''q'', ascii ''q''), (ascii ''r'', ascii ''r''),
     (ascii ''s'', ascii ''s''), (ascii ''t'', ascii ''t''), (ascii ''u'', ascii ''i''), (ascii ''v'', ascii ''v''),
     (ascii ''w'', ascii ''o''), (ascii ''x'', ascii ''3x''), (ascii ''y'', ascii ''i''), (ascii ''z'', ascii ''z''),
     (ascii ''3'', ascii ''3''), (ascii ''8'', ascii ''8''), (ascii ''9'', ascii ''8''), (ascii ''4'', ascii ''4'')]"
  by (simp add: make_dictionary_from_strings_def split_def isspace_def enumerate_eq_zip lish_trigraph_def lish_digraph_def lish_monograph_def l_uglish_trigraph_def l_uglish_digraph_def l_uglish_monograph_def)

lemma l2u_dict_eq:
  "l2u_dict =
    [(ascii ''nch'', ascii ''H''), (ascii ''ai'', ascii ''e''), (ascii ''au'', ascii ''A''), (ascii ''af'', ascii ''A''),
     (ascii ''av'', ascii ''A''), (ascii ''ay'', ascii ''A''), (ascii ''ch'', ascii ''x''), (ascii ''ei'', ascii ''i''),
     (ascii ''eu'', ascii ''E''), (ascii ''ef'', ascii ''E''), (ascii ''ev'', ascii ''E''), (ascii ''ey'', ascii ''E''),
     (ascii ''gg'', ascii ''G''), (ascii ''gk'', ascii ''G''), (ascii ''ks'', ascii ''3''), (ascii ''ng'', ascii ''G''),
     (ascii ''nk'', ascii ''G''), (ascii ''mp'', ascii ''b''), (ascii ''mb'', ascii ''bV''), (ascii ''mv'', ascii ''V''),
     (ascii ''nt'', ascii ''d''), (ascii ''nd'', ascii ''d''), (ascii ''oi'', ascii ''i''), (ascii ''ou'', ascii ''u''),
     (ascii ''ps'', ascii ''4''), (ascii ''th'', ascii ''8''), (ascii ''a'', ascii ''a''), (ascii ''b'', ascii ''bv''),
     (ascii ''c'', ascii ''s''), (ascii ''d'', ascii ''d''), (ascii ''e'', ascii ''e''), (ascii ''f'', ascii ''f''),
     (ascii ''g'', ascii ''g''), (ascii ''h'', ascii ''xi''), (ascii ''i'', ascii ''i''), (ascii ''j'', ascii ''3''),
     (ascii ''k'', ascii ''k''), (ascii ''l'', ascii ''l''), (ascii ''m'', ascii ''m''), (ascii ''n'', ascii ''n''),
     (ascii ''o'', ascii ''o''), (ascii ''p'', ascii ''p''), (ascii ''q'', ascii ''q''), (ascii ''r'', ascii ''r''),
     (ascii ''s'', ascii ''s''), (ascii ''t'', ascii ''t''), (ascii ''u'', ascii ''i''), (ascii ''v'', ascii ''v''),
     (ascii ''w'', ascii ''o''), (ascii ''x'', ascii ''3x''), (ascii ''y'', ascii ''i''), (ascii ''z'', ascii ''z''),
     (ascii ''3'', ascii ''3''), (ascii ''8'', ascii ''8''), (ascii ''9'', ascii ''8''), (ascii ''4'', ascii ''4'')]"
  by (simp add: l2u_dict_def l2u_dict_made)

lemma tiebreaker_dict_eq:
  "tiebreaker_dict =
    [(ascii ''y'', [g_upsilon]), (ascii ''u'', [g_upsilon]),
     (ascii ''h'', [g_eta]), (ascii ''ai'', [g_alpha, g_iota]),
     (ascii ''au'', [g_alpha, g_upsilon]), (ascii ''ay'', [g_alpha, g_upsilon]),
     (ascii ''ei'', [g_epsilon, g_iota]), (ascii ''eu'', [g_epsilon, g_upsilon]),
     (ascii ''ey'', [g_epsilon, g_upsilon]), (ascii ''oi'', [g_omicron, g_iota]),
     (ascii ''ou'', [g_omicron, g_upsilon]), (ascii ''mv'', [g_mu, g_beta])]"
  by (simp add: tiebreaker_dict_def split_def isspace_def tiebreaker_tokens_lish_def tiebreaker_tokens_greek_def)

section \<open>Tables made by \<open>make_dictionary_from_strings\<close>\<close>

lemma split_words_nonempty: "[] \<notin> set (split_words s word)"
  by (induction s arbitrary: word) auto

lemma split_nonempty: "[] \<notin> set (split s)"
  by (simp add: split_def split_words_nonempty)

lemma setitem_set: "set (setitem d k v) \<subseteq> insert (k, v) (set d)"
  by (induction d) (auto split: if_splits)

lemma fill_dictionary_nonempty:
  "fill_dictionary ils replace_list d = returns T \<Longrightarrow> [] \<notin> set (map snd ils) \<Longrightarrow>
   [] \<notin> set replace_list \<Longrightarrow> (\<And>k v. (k, v) \<in> set d \<Longrightarrow> k \<noteq> [] \<and> v \<noteq> []) \<Longrightarrow>
   (k, v) \<in> set T \<Longrightarrow> k \<noteq> [] \<and> v \<noteq> []"
proof (induction ils replace_list d rule: fill_dictionary.induct)
  case (1 replace_list output_dict)
  then show ?case by simp
next
  case (2 i l rest replace_list output_dict)
  from "2.prems"(1) have i: "i < length replace_list"
    by (auto split: if_splits)
  with "2.prems"(1)
  have run: "fill_dictionary rest replace_list (setitem output_dict l (replace_list ! i)) = returns T"
    by simp
  have "\<And>k v. (k, v) \<in> set (setitem output_dict l (replace_list ! i)) \<Longrightarrow> k \<noteq> [] \<and> v \<noteq> []"
  proof -
    fix k v
    assume "(k, v) \<in> set (setitem output_dict l (replace_list ! i))"
    then have "(k, v) = (l, replace_list ! i) \<or> (k, v) \<in> set output_dict"
      using setitem_set [of output_dict l "replace_list ! i"] by auto
    moreover have "l \<noteq> []" using "2.prems"(2) by auto
    moreover have "replace_list ! i \<noteq> []" using "2.prems"(3) i by (metis nth_mem)
    ultimately show "k \<noteq> [] \<and> v \<noteq> []" using "2.prems"(4) by auto
  qed
  with "2.IH" [OF i run] "2.prems" show ?case by auto
qed

lemma make_dictionary_nonempty:
  assumes "make_dictionary_from_strings a b = returns T" and "(k, v) \<in> set T"
  shows "k \<noteq> [] \<and> v \<noteq> []"
proof (rule fill_dictionary_nonempty [OF assms(1) [unfolded make_dictionary_from_strings_def] _ _ _ assms(2)])
  show "[] \<notin> set (map snd (enumerate 0 (split a)))"
    by (simp add: split_nonempty)
  show "[] \<notin> set (split b)" by (rule split_nonempty)
qed simp

section \<open>The transducer returns\<close>

lemma replace_Nil: "replace [] T = returns [[]]"
  by (simp add: replace_def)

lemma item0_nonempty: "r \<noteq> [] \<Longrightarrow> \<exists>x. item0 r = returns x"
  by (cases r) (simp_all add: item0_def)

text \<open>
  C10, as amended. A table made by \<open>make_dictionary_from_strings\<close> has no empty key and
  no empty value. On a table whose keys and values are all non-empty strings,
  \<open>replace\<close> returns, for every input string, a non-empty list of strings, and reading
  element \<open>[0]\<close> of it does not fail. On the empty string it returns the list that holds
  the empty string, whatever the table.
\<close>

theorem replace_returns_nonempty_list:
  "(make_dictionary_from_strings a b = returns M \<longrightarrow> (\<forall>(k, v) \<in> set M. k \<noteq> [] \<and> v \<noteq> []))
   \<and> ((\<forall>(k, v) \<in> set T. k \<noteq> [] \<and> v \<noteq> []) \<longrightarrow>
        (\<exists>r. replace s T = returns r \<and> r \<noteq> []) \<and> (\<exists>x. bindc (replace s T) item0 = returns x))
   \<and> replace [] T = returns [[]]"
proof (intro conjI impI)
  show "\<forall>(k, v) \<in> set M. k \<noteq> [] \<and> v \<noteq> []"
    if "make_dictionary_from_strings a b = returns M"
    using make_dictionary_nonempty [OF that] by auto
next
  assume T: "\<forall>(k, v) \<in> set T. k \<noteq> [] \<and> v \<noteq> []"
  then have T': "\<And>k v. (k, v) \<in> set T \<Longrightarrow> k \<noteq> [] \<and> v \<noteq> []" by auto
  have "\<exists>r. replace_loop T s [[]] = returns r \<and> r \<noteq> []"
    by (rule replace_loop_nonempty [OF T']) simp_all
  then obtain r where r: "replace s T = returns r" "r \<noteq> []"
    by (auto simp: replace_def)
  then show "\<exists>r. replace s T = returns r \<and> r \<noteq> []" by blast
  from r item0_nonempty [OF r(2)] show "\<exists>x. bindc (replace s T) item0 = returns x"
    by auto
next
  show "replace [] T = returns [[]]" by (rule replace_Nil)
qed

theorem replace_returns_nonempty_list_witness:
  "make_dictionary_from_strings lat_accented lat_unaccented = returns lat_accent_dictionary
   \<and> list_all (\<lambda>(k, v). k \<noteq> [] \<and> v \<noteq> []) lat_accent_dictionary
   \<and> (\<exists>r. replace [l_a_grave, 0x62] lat_accent_dictionary = returns r \<and> r \<noteq> [])
   \<and> (\<exists>x. bindc (replace [l_a_grave, 0x62] lat_accent_dictionary) item0 = returns x)"
proof -
  have made: "make_dictionary_from_strings lat_accented lat_unaccented = returns lat_accent_dictionary"
    by (simp add: lat_accent_dictionary_made lat_accent_dictionary_eq)
  from replace_returns_nonempty_list
    [of lat_accented lat_unaccented lat_accent_dictionary lat_accent_dictionary "[l_a_grave, 0x62]"]
    made
  have ne: "\<forall>(k, v) \<in> set lat_accent_dictionary. k \<noteq> [] \<and> v \<noteq> []"
    by blast
  with replace_returns_nonempty_list
    [of lat_accented lat_unaccented lat_accent_dictionary lat_accent_dictionary "[l_a_grave, 0x62]"]
  have "(\<exists>r. replace [l_a_grave, 0x62] lat_accent_dictionary = returns r \<and> r \<noteq> [])
    \<and> (\<exists>x. bindc (replace [l_a_grave, 0x62] lat_accent_dictionary) item0 = returns x)"
    by blast
  with made ne show ?thesis by (simp add: list_all_iff)
qed

text \<open>
  C10 as stated fails on a table whose values are non-empty and that has the empty
  string as a key: on the input \<open>a\<close> with the table \<open>{'': 'x'}\<close> the loop of \<open>replace\<close>
  matches the empty key forever, and \<open>replace\<close> does not return.
\<close>

theorem replace_empty_key_counterexample:
  "replace (ascii ''a'') [([], ascii ''x'')] = None"
proof (cases "replace (ascii ''a'') [([], ascii ''x'')]")
  case None
  then show ?thesis .
next
  case (Some y)
  from replace_loop_diverges [OF Some [unfolded replace_def]]
  show ?thesis by simp
qed

section \<open>Tables of single letters\<close>

lemma keys_nonempty:
  "[] \<notin> set (keys greek_accent_dictionary)" "[] \<notin> set (keys lat_accent_dictionary)"
  "[] \<notin> set (keys g2u_dict)" "[] \<notin> set (keys l2u_dict)"
  by (simp_all add: keys_def greek_accent_dictionary_eq lat_accent_dictionary_eq g2u_dict_eq
      l2u_dict_eq)

lemma single_letters_accents:
  "single_letters greek_accent_dictionary" "single_letters lat_accent_dictionary"
  by (simp_all add: single_letters_def greek_accent_dictionary_eq lat_accent_dictionary_eq)

lemma find_single_letters:
  "single_letters T \<Longrightarrow>
   find (\<lambda>(g, alts). startswith (c # s) g) T =
     (case map_of T [c] of None \<Rightarrow> None | Some v \<Rightarrow> Some ([c], v))"
proof (induction T)
  case Nil
  show ?case by simp
next
  case (Cons p T)
  obtain k v where p: "p = (k, v)" by (cases p)
  from Cons.prems p obtain a where k: "k = [a]"
    by (cases k) (auto simp: single_letters_def)
  from Cons.prems have "single_letters T" by (simp add: single_letters_def)
  with Cons.IH p k show ?case by auto
qed

lemma map_of_single_letters:
  "single_letters T \<Longrightarrow> map_of T k = Some v \<Longrightarrow> \<exists>a. v = [a]"
proof -
  assume T: "single_letters T" and "map_of T k = Some v"
  then have "(k, v) \<in> set T" by (rule_tac map_of_SomeD)
  with T have "length v = 1" by (auto simp: single_letters_def list_all_iff)
  then show ?thesis by (cases v) auto
qed

lemma transduce_single_letters:
  "single_letters T \<Longrightarrow> transduce T s out = map (\<lambda>x. x @ map (strip T) s) out"
proof (induction s arbitrary: out)
  case Nil
  show ?case by simp
next
  case (Cons c s)
  show ?case
  proof (cases "map_of T [c]")
    case None
    with Cons show ?thesis
      by (simp add: find_single_letters strip_def)
  next
    case (Some v)
    with map_of_single_letters [OF Cons.prems Some] obtain a where v: "v = [a]" by blast
    with Some Cons show ?thesis
      by (simp add: find_single_letters strip_def fan_out_def)
  qed
qed

lemma single_letters_keys: "single_letters T \<Longrightarrow> [] \<notin> set (keys T)"
  by (auto simp: single_letters_def list_all_iff keys_def)

lemma replace_single_letters:
  "single_letters T \<Longrightarrow> replace s T = returns [map (strip T) s]"
  by (simp add: replace_def replace_loop_transduce single_letters_keys transduce_single_letters)

lemma replace_greek_accents [simp]:
  "replace s greek_accent_dictionary = returns [map (strip greek_accent_dictionary) s]"
  by (rule replace_single_letters) (rule single_letters_accents)

lemma replace_lat_accents [simp]:
  "replace s lat_accent_dictionary = returns [map (strip lat_accent_dictionary) s]"
  by (rule replace_single_letters) (rule single_letters_accents)

lemma item0_Cons [simp]: "item0 (x # xs) = returns x"
  by (simp add: item0_def)

lemma item0_Nil [simp]: "item0 [] = raises IndexError"
  by (simp add: item0_def)

section \<open>Tokenization returns\<close>

lemma tokenize_graphs_string [simp]:
  "tokenize_graphs w (GraphString gs) = returns (tokens (split gs) w)"
  by (simp add: tokenize_graphs_def tokenize_loop_tokens split_nonempty)

lemma tokenize_graphs_g2u [simp]:
  "tokenize_graphs w (GraphDict g2u_dict) = returns (tokens (keys g2u_dict) w)"
  by (simp add: tokenize_graphs_def tokenize_loop_tokens keys_nonempty)

lemma tokenize_graphs_l2u [simp]:
  "tokenize_graphs w (GraphDict l2u_dict) = returns (tokens (keys l2u_dict) w)"
  by (simp add: tokenize_graphs_def tokenize_loop_tokens keys_nonempty)

lemma tokens_nonempty: "[] \<notin> set gl \<Longrightarrow> w \<noteq> [] \<Longrightarrow> tokens gl w \<noteq> []"
  by (cases w) (auto split: option.splits dest: find_in_set)

section \<open>The accent test of \<open>find_accent\<close>\<close>

lemma contains_single: "contains s [c] = (c \<in> set s)"
  by (induction s) auto

lemma accent_mark_iff: "accent_mark c = (c = blank \<or> is_accented c)"
  by (auto simp: accent_mark_def is_accented_def accented_letters_def greek_accented_def
      lat_accented_def)

lemma find_accent_filter:
  "find_accent s = map fst (filter (\<lambda>(pos, l). accent_mark l) (enumerate 0 s))"
  by (simp add: find_accent_def contains_single accent_mark_def)

text \<open>
  C6. For every Latin word (a word holds no blank) that contains no accented letter,
  and every list of candidates, \<open>sort_possibilities_by_accent\<close> returns the list as it
  is. (The accent test of \<open>find_accent\<close> reads the strings of accented vowels with their
  separating blanks, so a blank would count as an accent.)
\<close>

theorem sort_possibilities_by_accent_unchanged:
  assumes "\<forall>c \<in> set lat_string. c \<noteq> blank \<and> \<not> is_accented c"
  shows "sort_possibilities_by_accent lat_string possibilities = returns possibilities"
proof -
  from assms have "\<forall>c \<in> set lat_string. \<not> accent_mark c"
    by (simp add: accent_mark_iff)
  then have "filter (\<lambda>(pos, l). accent_mark l) (enumerate 0 lat_string) = []"
    by (auto simp: filter_empty_conv dest: in_set_zipE simp: enumerate_eq_zip)
  then have "find_accent lat_string = []"
    by (simp add: find_accent_filter)
  then show ?thesis
    by (simp add: sort_possibilities_by_accent_def)
qed

theorem sort_possibilities_by_accent_unchanged_witness:
  "sort_possibilities_by_accent (ascii ''ta'')
     [[g_tau, g_alpha_tonos], [g_tau, g_alpha], [g_theta, g_alpha]] =
   returns [[g_tau, g_alpha_tonos], [g_tau, g_alpha], [g_theta, g_alpha]]"
  by (rule sort_possibilities_by_accent_unchanged)
    (simp add: is_accented_def accented_letters_def)

lemma greek_graph_list: "split (greek_digraph @ greek_monograph) = keys g2u_dict"
  by (simp add: split_def isspace_def greek_digraph_def greek_monograph_def g2u_dict_eq keys_def)

lemma lish_graph_list: "split (lish_trigraph @ lish_digraph @ lish_monograph) = keys l2u_dict"
  by (simp add: split_def isspace_def lish_trigraph_def lish_digraph_def lish_monograph_def
      l2u_dict_eq keys_def)

section \<open>The accent position that \<open>find_accent_graph_position\<close> returns\<close>

lemma find_accent_graph_position_returns:
  "find_accent_graph_position word gs = returns (graph_position word gs)"
  by (cases "find_accent word")
    (simp_all add: find_accent_graph_position_def graph_position_def count_graphs_def take_map)

lemma strip_tables_unaccent:
  "c \<notin> set capital_accented_letters \<Longrightarrow>
   strip lat_accent_dictionary (strip greek_accent_dictionary c) = unaccent_letter c"
  by (simp add: strip_def greek_accent_dictionary_eq lat_accent_dictionary_eq
      unaccent_letter_def without_accent_def capital_accented_letters_def)

lemma carries_accent_mark_small:
  "c \<notin> set capital_accented_letters \<Longrightarrow> c \<noteq> blank \<Longrightarrow> accent_mark c = carries_accent_mark c"
  by (simp add: accent_mark_iff carries_accent_mark_def is_accented_def)

lemma first_accent_enumerate:
  "list_all (\<lambda>c. c \<noteq> blank) s \<Longrightarrow>
   (case first_accent s of None \<Rightarrow> True
    | Some k \<Rightarrow> list_all (\<lambda>c. c \<notin> set capital_accented_letters) (take (Suc k) s)) \<Longrightarrow>
   (case map fst (filter (\<lambda>(pos, l). accent_mark l) (enumerate n s)) of
      [] \<Rightarrow> None | p # _ \<Rightarrow> Some p) = map_option (\<lambda>k. n + k) (first_accent s)"
proof (induction s arbitrary: n)
  case Nil
  show ?case by simp
next
  case (Cons c s)
  show ?case
  proof (cases "carries_accent_mark c")
    case True
    with Cons.prems have "accent_mark c" by (simp add: carries_accent_mark_small)
    with True show ?thesis by simp
  next
    case False
    then have "c \<notin> set capital_accented_letters" by (simp add: carries_accent_mark_def)
    with Cons.prems False have c: "\<not> accent_mark c" by (simp add: carries_accent_mark_small)
    from Cons.prems have blank: "list_all (\<lambda>c. c \<noteq> blank) s" by simp
    from Cons.prems(2) False
    have "case first_accent s of None \<Rightarrow> True
      | Some k \<Rightarrow> list_all (\<lambda>c. c \<notin> set capital_accented_letters) (take (Suc k) s)"
      by (cases "first_accent s") simp_all
    from Cons.IH [OF blank this, of "Suc n"] c False show ?thesis
      by (simp add: option.map_comp comp_def)
  qed
qed

lemma small_to_accent_first:
  "small_to_accent s \<Longrightarrow>
   case first_accent s of None \<Rightarrow> True
   | Some k \<Rightarrow> list_all (\<lambda>c. c \<notin> set capital_accented_letters) (take (Suc k) s)"
  by (cases "first_accent s") (simp_all add: small_to_accent_def list_all_iff)

lemma find_accent_first:
  assumes "small_to_accent s"
  shows "(case find_accent s of [] \<Rightarrow> None | p # _ \<Rightarrow> Some p) = first_accent s"
proof -
  from assms have "list_all (\<lambda>c. c \<noteq> blank) s" by (simp add: small_to_accent_def)
  from first_accent_enumerate [OF this small_to_accent_first [OF assms], of 0]
  show ?thesis by (simp add: find_accent_filter option.map_ident)
qed

lemma first_accent_None: "(first_accent s = None) = (\<forall>c \<in> set s. \<not> carries_accent_mark c)"
  by (induction s) auto

lemma basic_lower_small: "\<forall>c \<in> set s. \<not> is_capital c \<Longrightarrow> basic_lower s = s"
  by (simp add: basic_lower_def map_idI)

lemma unaccent_letter_small:
  "\<not> is_capital c \<Longrightarrow> c \<notin> set capital_accented_letters \<Longrightarrow> \<not> is_capital (unaccent_letter c)"
  by (auto simp add: unaccent_letter_def without_accent_def capital_accented_letters_def
      is_capital_def split: if_splits)

lemma graph_position_accent_position:
  assumes "small_to_accent word"
  shows "graph_position word gs = accent_position word gs"
proof (cases "find_accent word")
  case Nil
  with find_accent_first [OF assms] have "first_accent word = None" by simp
  with Nil show ?thesis by (simp add: graph_position_def accent_position_def)
next
  case (Cons p ps)
  with find_accent_first [OF assms] have fa: "first_accent word = Some p" by simp
  with assms have small: "\<forall>c \<in> set (take (Suc p) word).
      \<not> is_capital c \<and> c \<notin> set capital_accented_letters"
    by (simp add: small_to_accent_def list_all_iff)
  then have strip: "map (strip lat_accent_dictionary)
        (map (strip greek_accent_dictionary) (take (Suc p) word)) =
      map unaccent_letter (take (Suc p) word)"
    by (simp add: strip_tables_unaccent)
  from small have "\<forall>c \<in> set (map unaccent_letter (take (Suc p) word)). \<not> is_capital c"
    by (simp add: unaccent_letter_small)
  then have lower: "basic_lower (map unaccent_letter (take (Suc p) word)) =
      map unaccent_letter (take (Suc p) word)"
    by (rule basic_lower_small)
  have "graph_position word gs =
      int (length (tokens (split gs) (map (strip lat_accent_dictionary)
        (map (strip greek_accent_dictionary) (take (Suc p) word)))))"
    by (simp only: graph_position_def Cons list.case)
  also have "\<dots> = int (length (tokens (split gs)
      (basic_lower (map unaccent_letter (take (Suc p) word)))))"
    by (simp only: strip lower)
  also have "\<dots> = accent_position word gs"
    by (simp only: accent_position_def fa option.case)
  finally show ?thesis .
qed

lemma find_accent_carries:
  assumes "small_to_accent word"
  shows "(find_accent word = []) = (\<forall>c \<in> set word. \<not> carries_accent_mark c)"
proof (cases "find_accent word")
  case Nil
  with find_accent_first [OF assms] have "first_accent word = None" by simp
  with Nil show ?thesis by (simp add: first_accent_None)
next
  case (Cons p ps)
  with find_accent_first [OF assms] have "first_accent word = Some p" by simp
  then have "first_accent word \<noteq> None" by simp
  with Cons show ?thesis by (simp add: first_accent_None)
qed

lemma small_to_accent_plain:
  "list_all (\<lambda>c. c \<noteq> blank) word \<Longrightarrow> \<forall>c \<in> set word. \<not> carries_accent_mark c \<Longrightarrow>
   small_to_accent word"
  by (simp add: small_to_accent_def first_accent_None [symmetric])

text \<open>
  C8 does not hold of the code on a word with a capital letter before or at its first
  accent mark. \<open>find_accent\<close> looks the characters of the word up, as they are, in the
  two strings of accented small letters, and \<open>find_accent_graph_position\<close> counts the
  graphs of the prefix as it is, while the other stages lowercase the word first. For
  the word E-acute \<open>l\<close> \<open>a\<close>, which \<open>translate_text\<close> takes as a Latin word, the accent
  position is 1 (the first letter carries the accent, and the prefix is one graph), and
  \<open>find_accent_graph_position\<close> returns the value 100 of a word without accent; for the
  same word in small letters it returns 1. For the word \<open>T\<close> \<open>h\<close> a-acute \<open>o\<close> the accent
  position is 2 (the graphs \<open>th\<close> and \<open>a\<close>), and \<open>find_accent_graph_position\<close> returns 3;
  for the same word in small letters it returns 2.
\<close>

theorem find_accent_graph_position_capital_accent:
  "find_accent_graph_position [0xC9, 0x6C, 0x61]
      (lish_trigraph @ lish_digraph @ lish_monograph) = returns 100
   \<and> accent_position [0xC9, 0x6C, 0x61] (lish_trigraph @ lish_digraph @ lish_monograph) = 1
   \<and> find_accent_graph_position [l_e_acute, 0x6C, 0x61]
      (lish_trigraph @ lish_digraph @ lish_monograph) = returns 1
   \<and> find_accent_graph_position [0x54, 0x68, l_a_acute, 0x6F]
      (lish_trigraph @ lish_digraph @ lish_monograph) = returns 3
   \<and> accent_position [0x54, 0x68, l_a_acute, 0x6F]
      (lish_trigraph @ lish_digraph @ lish_monograph) = 2
   \<and> find_accent_graph_position [0x74, 0x68, l_a_acute, 0x6F]
      (lish_trigraph @ lish_digraph @ lish_monograph) = returns 2"
  by (simp add: find_accent_graph_position_returns graph_position_def find_accent_def
      greek_accented_def lat_accented_def enumerate_eq_zip accent_position_def
      carries_accent_mark_def accented_letters_def capital_accented_letters_def
      unaccent_letter_def without_accent_def strip_def greek_accent_dictionary_eq
      lat_accent_dictionary_eq lish_graph_list keys_def l2u_dict_eq basic_lower_def
      is_capital_def)

section \<open>Sorting by a list of metrics is a stable sort\<close>

lemma insort_key_map:
  "insort_key f (g x) (map g ys) = map g (insort_key (\<lambda>y. f (g y)) x ys)"
  by (induction ys) simp_all

lemma sort_key_map: "sort_key f (map g xs) = map g (sort_key (\<lambda>y. f (g y)) xs)"
  by (induction xs) (simp_all add: insort_key_map)

lemma enumerate_map_nth:
  "enumerate 0 (map f xs) = map (\<lambda>i. (i, f (xs ! i))) [0..<length xs]"
  by (rule nth_equalityI) (simp_all add: nth_enumerate_eq)

lemma sorted_indices_eq:
  "map fst (sort_key snd (enumerate 0 (map f xs))) =
     sort_key (\<lambda>i. f (xs ! i)) [0..<length xs]"
  by (simp add: enumerate_map_nth sort_key_map comp_def)

lemma sort_possibilities_by_stable:
  "sort_possibilities_by possibilities (map f possibilities) =
     returns (sort_key f possibilities)"
proof -
  let ?is = "sort_key (\<lambda>i. f (possibilities ! i)) [0..<length possibilities]"
  have "mapc (\<lambda>i. if i < length possibilities then returns (possibilities ! i)
                   else raises IndexError) ?is = returns (map (\<lambda>i. possibilities ! i) ?is)"
    by (rule mapc_returns) simp
  moreover have "map (\<lambda>i. possibilities ! i) ?is =
      sort_key f (map (\<lambda>i. possibilities ! i) [0..<length possibilities])"
    by (simp add: sort_key_map)
  ultimately show ?thesis
    by (simp add: sort_possibilities_by_def sorted_indices_eq map_nth)
qed

section \<open>A stable sort after a stable sort is a lexicographic sort\<close>

lemma sorted_lex_iff:
  "sorted (map (\<lambda>x. (f x, g x)) ys) =
     (sorted (map f ys) \<and> (\<forall>k. sorted (map g (filter (\<lambda>x. f x = k) ys))))"
  by (induction ys) (auto simp: less_eq_prod_def)

lemma sort_key_stable_flipped:
  "filter (\<lambda>x. k = f x) (sort_key f xs) = filter (\<lambda>x. k = f x) xs"
proof -
  have "(\<lambda>x. k = f x) = (\<lambda>x. f x = k)" by auto
  then show ?thesis by (simp add: sort_key_stable)
qed

lemma sort_key_twice:
  fixes f :: "'a \<Rightarrow> 'b::linorder" and g :: "'a \<Rightarrow> 'c::linorder"
  shows "sort_key f (sort_key g xs) = sort_key (\<lambda>x. (f x, g x)) xs"
proof (rule properties_for_sort_key [symmetric])
  show "mset (sort_key f (sort_key g xs)) = mset xs" by simp
next
  fix k
  assume "k \<in> set (sort_key f (sort_key g xs))"
  have "filter (\<lambda>x. (f k, g k) = (f x, g x)) (sort_key f (sort_key g xs)) =
      filter (\<lambda>x. g k = g x) (filter (\<lambda>x. f k = f x) (sort_key f (sort_key g xs)))"
    by simp
  also have "\<dots> = filter (\<lambda>x. g k = g x) (filter (\<lambda>x. f k = f x) (sort_key g xs))"
    by (simp only: sort_key_stable_flipped)
  also have "\<dots> = filter (\<lambda>x. f k = f x) (filter (\<lambda>x. g k = g x) (sort_key g xs))"
    by (simp add: conj_commute)
  also have "\<dots> = filter (\<lambda>x. f k = f x) (filter (\<lambda>x. g k = g x) xs)"
    by (simp only: sort_key_stable_flipped)
  also have "\<dots> = filter (\<lambda>x. (f k, g k) = (f x, g x)) xs"
    by (simp add: conj_commute)
  finally show "filter (\<lambda>x. (f k, g k) = (f x, g x)) (sort_key f (sort_key g xs)) =
      filter (\<lambda>x. (f k, g k) = (f x, g x)) xs" .
next
  have "sorted (map g (filter (\<lambda>x. f x = k) (sort_key f (sort_key g xs))))" for k
  proof -
    have "filter (\<lambda>x. f x = k) (sort_key f (sort_key g xs)) =
        filter (\<lambda>x. f x = k) (sort_key g xs)"
      by (simp only: sort_key_stable)
    also have "\<dots> = sort_key g (filter (\<lambda>x. f x = k) xs)"
      by (simp add: filter_sort)
    finally show ?thesis by simp
  qed
  then show "sorted (map (\<lambda>x. (f x, g x)) (sort_key f (sort_key g xs)))"
    by (simp add: sorted_lex_iff)
qed

section \<open>The length stage\<close>

lemma unicode_basic_simps [simp]:
  "lower unicode_basic = basic_lower" "upper unicode_basic = basic_upper"
  "isupper unicode_basic = basic_isupper"
  by (simp_all add: unicode_basic_def)

lemma str_count_Nil: "sub \<noteq> [] \<Longrightarrow> str_count [] sub = 0"
  by (subst str_count.simps) simp

lemma str_count_match:
  "sub \<noteq> [] \<Longrightarrow> s \<noteq> [] \<Longrightarrow> startswith s sub \<Longrightarrow>
   str_count s sub = 1 + str_count (drop (length sub) s) sub"
  by (subst str_count.simps) simp

lemma str_count_nomatch:
  "sub \<noteq> [] \<Longrightarrow> s \<noteq> [] \<Longrightarrow> \<not> startswith s sub \<Longrightarrow>
   str_count s sub = str_count (tl s) sub"
  by (subst str_count.simps) simp

lemma str_count_distinct_digraph:
  "sub = [a, b] \<Longrightarrow> a \<noteq> b \<Longrightarrow> str_count s sub = occurrences s sub"
proof (induction s sub rule: str_count.induct)
  case (1 s sub)
  from "1.prems" have sub: "sub \<noteq> []" by simp
  show ?case
  proof (cases s)
    case Nil
    with sub show ?thesis by (simp add: str_count_Nil)
  next
    case (Cons c s')
    then have s: "s \<noteq> []" by simp
    show ?thesis
    proof (cases "startswith s sub")
      case True
      with Cons "1.prems" obtain s'' where s'': "s = a # b # s''"
        by (cases s') auto
      from "1.IH"(1) [OF sub s True "1.prems"] s'' "1.prems"
      have "str_count s'' sub = occurrences s'' sub" by simp
      with s'' "1.prems" str_count_match [OF sub s True] show ?thesis by simp
    next
      case False
      from "1.IH"(2) [OF sub s False "1.prems"] Cons
      have "str_count s' sub = occurrences s' sub" by simp
      with False Cons str_count_nomatch [OF sub s False] show ?thesis by simp
    qed
  qed
qed

lemma digraphs_to_monographs:
  "split (ascii ''ch th ps'') = [ascii ''ch'', ascii ''th'', ascii ''ps'']"
  by (simp add: split_def isspace_def)

lemma lat_len_eq:
  "foldl (\<lambda>lat_len digraph. lat_len - int (str_count (lower U lat_string) digraph))
     (int (length lat_string)) (split (ascii ''ch th ps'')) = adjusted_latin_length U lat_string"
proof -
  have "str_count s (ascii ''ch'') = occurrences s (ascii ''ch'')" for s
    by (rule str_count_distinct_digraph [where a = 99 and b = 104]) simp_all
  moreover have "str_count s (ascii ''th'') = occurrences s (ascii ''th'')" for s
    by (rule str_count_distinct_digraph [where a = 116 and b = 104]) simp_all
  moreover have "str_count s (ascii ''ps'') = occurrences s (ascii ''ps'')" for s
    by (rule str_count_distinct_digraph [where a = 112 and b = 115]) simp_all
  ultimately show ?thesis
    by (simp only: digraphs_to_monographs foldl.simps adjusted_latin_length_def)
qed

lemma sort_possibilities_by_length_eq:
  "sort_possibilities_by_length U lat_string possibilities =
     returns (sort_key (length_difference U lat_string) possibilities)"
proof -
  have "sort_possibilities_by_length U lat_string possibilities =
      sort_possibilities_by possibilities
        (map (length_difference U lat_string) possibilities)"
    unfolding sort_possibilities_by_length_def Let_def lat_len_eq length_difference_def ..
  then show ?thesis by (simp add: sort_possibilities_by_stable)
qed

text \<open>
  C7. The length stage returns the candidates in a stable ascending sort by the
  absolute difference between the candidate's length and the adjusted Latin length: the
  number of characters of the Latin word minus one for each occurrence of \<open>ch\<close>, \<open>th\<close>
  and \<open>ps\<close> in the lowercased Latin word. The result is ordered by the difference, and
  candidates of equal difference keep their order.
\<close>

theorem sort_possibilities_by_length_stable:
  "\<exists>r. sort_possibilities_by_length U lat_string possibilities = returns r
     \<and> r = sort_key (length_difference U lat_string) possibilities
     \<and> sorted (map (length_difference U lat_string) r)
     \<and> mset r = mset possibilities
     \<and> (\<forall>d. filter (\<lambda>g. length_difference U lat_string g = d) r =
              filter (\<lambda>g. length_difference U lat_string g = d) possibilities)"
  by (simp add: sort_possibilities_by_length_eq sort_key_stable)

theorem sort_possibilities_by_length_stable_witness:
  "sort_possibilities_by_length unicode_basic (ascii ''psychi'')
     [[g_psi, g_upsilon, g_chi, g_iota, g_kappa, g_omicron_tonos],
      [g_psi, g_upsilon, g_chi, g_eta_tonos],
      [g_psi, g_upsilon, g_chi, g_epsilon_tonos, g_final_sigma],
      [g_psi, g_iota, g_chi, g_eta]] =
   returns
     [[g_psi, g_upsilon, g_chi, g_eta_tonos],
      [g_psi, g_iota, g_chi, g_eta],
      [g_psi, g_upsilon, g_chi, g_epsilon_tonos, g_final_sigma],
      [g_psi, g_upsilon, g_chi, g_iota, g_kappa, g_omicron_tonos]]"
  using sort_possibilities_by_length_stable [of unicode_basic "ascii ''psychi''"
     "[[g_psi, g_upsilon, g_chi, g_iota, g_kappa, g_omicron_tonos],
      [g_psi, g_upsilon, g_chi, g_eta_tonos],
      [g_psi, g_upsilon, g_chi, g_epsilon_tonos, g_final_sigma],
      [g_psi, g_iota, g_chi, g_eta]]"]
  by (simp add: length_difference_def adjusted_latin_length_def basic_lower_def is_capital_def)

section \<open>The tie-break stage\<close>

lemma check_possibilities_eq:
  "length pre = n \<Longrightarrow> length ip = length tps \<Longrightarrow>
   check_possibilities i t (enumerate n tps) (pre @ ip) =
     (if list_all (\<lambda>tp. i < length tp) tps
      then returns (pre @ map2 (\<lambda>tp v. if tp ! i = t then v - 1 else v) tps ip)
      else raises IndexError)"
proof (induction tps arbitrary: n pre ip)
  case Nil
  then show ?case by simp
next
  case (Cons tp tps)
  from Cons.prems obtain v ip' where ip: "ip = v # ip'" and len: "length ip' = length tps"
    by (cases ip) auto
  have upd: "(pre @ v # ip')[n := (pre @ v # ip') ! n - 1] = (pre @ [v - 1]) @ ip'"
    using Cons.prems(1) by (simp add: list_update_append nth_append)
  have same: "pre @ v # ip' = (pre @ [v]) @ ip'" by simp
  have l1: "length (pre @ [v - 1]) = Suc n" and l2: "length (pre @ [v]) = Suc n"
    using Cons.prems(1) by simp_all
  show ?case
  proof (cases "i < length tp")
    case False
    then show ?thesis by (simp add: ip)
  next
    case True
    show ?thesis
    proof (cases "tp ! i = t")
      case True
      with \<open>i < length tp\<close> Cons.prems(1) Cons.IH [OF l1 len] show ?thesis
        by (simp add: ip upd del: append_assoc append.simps)
    next
      case False
      with \<open>i < length tp\<close> Cons.IH [OF l2 len] show ?thesis
        unfolding ip by (simp only: enumerate_simps check_possibilities.simps same if_True if_False)
          simp
    qed
  qed
qed

lemma map2_second: "length ys = length xs \<Longrightarrow> map2 (\<lambda>x y. y) xs ys = ys"
  by (induction xs arbitrary: ys) (auto simp: length_Suc_conv)

lemma map2_map2: "map2 f xs (map2 g xs ys) = map2 (\<lambda>x y. f x (g x y)) xs ys"
proof (induction xs arbitrary: ys)
  case Nil
  show ?case by simp
next
  case (Cons x xs)
  then show ?case by (cases ys) simp_all
qed

lemma map2_cong_set:
  "(\<And>x y. x \<in> set xs \<Longrightarrow> f x y = g x y) \<Longrightarrow> map2 f xs ys = map2 g xs ys"
  by (rule map_cong) (auto dest: in_set_zipE)

lemma length_map2_same: "length ys = length xs \<Longrightarrow> length (map2 f xs ys) = length xs"
  by simp

lemma tokens_suffice_Nil [simp]: "tokens_suffice [] tp"
  by (simp add: tokens_suffice_def)

lemma tiebreaker_matches_Nil [simp]: "tiebreaker_matches [] tp = 0"
  by (simp add: tiebreaker_matches_def)

lemma check_tokens_eq:
  "length ip = length tps \<Longrightarrow>
   check_tokens positions tps ip =
     (if list_all (tokens_suffice positions) tps
      then returns (map2 (\<lambda>tp v. v - int (tiebreaker_matches positions tp)) tps ip)
      else raises IndexError)"
proof (induction positions arbitrary: ip)
  case Nil
  then show ?case by (simp add: map2_second list_all_iff)
next
  case (Cons p positions)
  obtain i tok where p: "p = (i, tok)" by (cases p)
  show ?case
  proof (cases "map_of tiebreaker_dict tok")
    case None
    then have "tokens_suffice (p # positions) = tokens_suffice positions"
      "tiebreaker_matches (p # positions) = tiebreaker_matches positions"
      by (auto simp: p tokens_suffice_def tiebreaker_matches_def)
    with None Cons show ?thesis by (simp add: p)
  next
    case (Some t)
    have suff: "tokens_suffice (p # positions) tp = (i < length tp \<and> tokens_suffice positions tp)"
      for tp
      using Some by (simp add: p tokens_suffice_def)
    have all: "list_all (tokens_suffice (p # positions)) tps =
        (list_all (\<lambda>tp. i < length tp) tps \<and> list_all (tokens_suffice positions) tps)"
      by (auto simp: suff list_all_iff)
    have cp: "check_possibilities i t (enumerate 0 tps) ip =
        (if list_all (\<lambda>tp. i < length tp) tps
         then returns (map2 (\<lambda>tp v. if tp ! i = t then v - 1 else v) tps ip)
         else raises IndexError)"
      using check_possibilities_eq [of "[]" 0 ip tps i t] Cons.prems by simp
    show ?thesis
    proof (cases "list_all (\<lambda>tp. i < length tp) tps")
      case False
      with cp Some all show ?thesis by (simp add: p)
    next
      case True
      let ?ip = "map2 (\<lambda>tp v. if tp ! i = t then v - 1 else v) tps ip"
      have len: "length ?ip = length tps" using Cons.prems by simp
      have m: "tiebreaker_matches (p # positions) tp =
          (if tp ! i = t then 1 else 0) + tiebreaker_matches positions tp"
        if "tp \<in> set tps" for tp
        using that True Some by (auto simp: p tiebreaker_matches_def list_all_iff)
      have "map2 (\<lambda>tp v. v - int (tiebreaker_matches positions tp)) tps ?ip =
          map2 (\<lambda>tp v. (if tp ! i = t then v - 1 else v) - int (tiebreaker_matches positions tp))
            tps ip"
        by (rule map2_map2)
      also have "\<dots> = map2 (\<lambda>tp v. v - int (tiebreaker_matches (p # positions) tp)) tps ip"
        by (rule map2_cong_set) (simp add: m)
      finally have "map2 (\<lambda>tp v. v - int (tiebreaker_matches positions tp)) tps ?ip =
          map2 (\<lambda>tp v. v - int (tiebreaker_matches (p # positions) tp)) tps ip" .
      with True cp Some all Cons.IH [OF len] show ?thesis by (simp add: p)
    qed
  qed
qed

lemma scores_of_baseline:
  "map2 (\<lambda>tp v. v - int (tiebreaker_matches positions tp)) (map h ps)
     (replicate (length ps) 100) =
   map (\<lambda>g. 100 - int (tiebreaker_matches positions (h g))) ps"
  by (induction ps) simp_all

lemma sort_possibilities_by_tiebreakers_eq:
  "sort_possibilities_by_tiebreakers U lat_string possibilities =
     (if list_all (\<lambda>g. tokens_suffice (enumerate 0 (lat_tokens U lat_string)) (greek_tokens U g))
           possibilities
      then returns (sort_key (tiebreaker_score U lat_string) possibilities)
      else raises IndexError)"
proof -
  have tps: "mapc (\<lambda>possibility.
        bindc (replace (lower U possibility) greek_accent_dictionary) (\<lambda>r.
        bindc (item0 r) (\<lambda>s. tokenize_graphs s (GraphDict g2u_dict)))) possibilities =
      returns (map (greek_tokens U) possibilities)"
    by (rule mapc_returns) (simp add: greek_tokens_def)
  have ct: "check_tokens (enumerate 0 (lat_tokens U lat_string)) (map (greek_tokens U) possibilities)
        (replicate (length possibilities) 100) =
      (if list_all (tokens_suffice (enumerate 0 (lat_tokens U lat_string)))
            (map (greek_tokens U) possibilities)
       then returns (map (tiebreaker_score U lat_string) possibilities)
       else raises IndexError)"
    by (subst check_tokens_eq) (simp_all add: scores_of_baseline tiebreaker_score_def)
  show ?thesis
    unfolding sort_possibilities_by_tiebreakers_def replace_lat_accents bindc_returns item0_Cons
      tokenize_graphs_l2u lat_tokens_def [symmetric] tps ct
    by (simp add: sort_possibilities_by_stable list_all_iff)
qed

lemma tokens_suffice_iff:
  "tokens_suffice (enumerate 0 ts) tp =
     (\<forall>i < length ts. map_of tiebreaker_dict (ts ! i) \<noteq> None \<longrightarrow> i < length tp)"
proof -
  have "tokens_suffice (enumerate 0 ts) tp =
      (\<forall>k < length ts. map_of tiebreaker_dict (snd (enumerate 0 ts ! k)) = None
         \<or> fst (enumerate 0 ts ! k) < length tp)"
    by (simp add: tokens_suffice_def list_all_length case_prod_beta)
  then show ?thesis by (auto simp: nth_enumerate_eq)
qed

text \<open>
  C1, as amended. The tie-break stage reads \<open>tokenized_possibility[i]\<close> for every
  candidate at every position \<open>i\<close> of the Latin tokenization that holds a tiebreaker
  token. When every candidate has a token at each of these positions, no position
  beyond a candidate's tokens is read and the stage returns the candidates in a stable
  sort by their scores, 100 minus the number of positions with the expected Greek graph.
  Otherwise the stage raises \<open>IndexError\<close>: a candidate that is too short is not
  treated as a candidate without match.
\<close>

theorem sort_possibilities_by_tiebreakers_positions:
  "((\<forall>g \<in> set possibilities. \<forall>i < length (lat_tokens U lat_string).
        map_of tiebreaker_dict (lat_tokens U lat_string ! i) \<noteq> None \<longrightarrow>
        i < length (greek_tokens U g)) \<longrightarrow>
     sort_possibilities_by_tiebreakers U lat_string possibilities =
       returns (sort_key (tiebreaker_score U lat_string) possibilities))
   \<and> (\<not> (\<forall>g \<in> set possibilities. \<forall>i < length (lat_tokens U lat_string).
        map_of tiebreaker_dict (lat_tokens U lat_string ! i) \<noteq> None \<longrightarrow>
        i < length (greek_tokens U g)) \<longrightarrow>
     sort_possibilities_by_tiebreakers U lat_string possibilities = raises IndexError)"
proof -
  let ?ok = "\<forall>g \<in> set possibilities. \<forall>i < length (lat_tokens U lat_string).
        map_of tiebreaker_dict (lat_tokens U lat_string ! i) \<noteq> None \<longrightarrow>
        i < length (greek_tokens U g)"
  let ?all = "list_all (\<lambda>g. tokens_suffice (enumerate 0 (lat_tokens U lat_string))
      (greek_tokens U g)) possibilities"
  have eq: "?all = ?ok"
    by (simp only: list_all_iff tokens_suffice_iff)
  show ?thesis
  proof (intro conjI impI)
    assume ?ok
    with eq have ?all by blast
    then show "sort_possibilities_by_tiebreakers U lat_string possibilities =
        returns (sort_key (tiebreaker_score U lat_string) possibilities)"
      by (simp only: sort_possibilities_by_tiebreakers_eq if_True)
  next
    assume "\<not> ?ok"
    with eq have "\<not> ?all" by blast
    then show "sort_possibilities_by_tiebreakers U lat_string possibilities = raises IndexError"
      by (simp only: sort_possibilities_by_tiebreakers_eq if_False)
  qed
qed

lemma strip_accents_evaluated:
  "map (strip lat_accent_dictionary) (ascii ''kai'') = ascii ''kai''"
  "map (strip lat_accent_dictionary) (ascii ''thy'') = ascii ''thy''"
  "map (strip greek_accent_dictionary) [g_kappa, g_epsilon] = [g_kappa, g_epsilon]"
  "map (strip greek_accent_dictionary) [g_kappa, g_alpha, g_iota] = [g_kappa, g_alpha, g_iota]"
  "map (strip greek_accent_dictionary) [g_theta] = [g_theta]"
  by (simp_all add: strip_def lat_accent_dictionary_eq greek_accent_dictionary_eq)

lemma tokens_evaluated:
  "tokens (keys l2u_dict) (ascii ''kai'') = [ascii ''k'', ascii ''ai'']"
  "tokens (keys l2u_dict) (ascii ''thy'') = [ascii ''th'', ascii ''y'']"
  "tokens (keys g2u_dict) [g_kappa, g_epsilon] = [[g_kappa], [g_epsilon]]"
  "tokens (keys g2u_dict) [g_kappa, g_alpha, g_iota] = [[g_kappa], [g_alpha, g_iota]]"
  "tokens (keys g2u_dict) [g_theta] = [[g_theta]]"
  by (simp_all add: keys_def l2u_dict_eq g2u_dict_eq)

lemma tokens_kai:
  "lat_tokens unicode_basic (ascii ''kai'') = [ascii ''k'', ascii ''ai'']"
  "lat_tokens unicode_basic (ascii ''thy'') = [ascii ''th'', ascii ''y'']"
  "greek_tokens unicode_basic [g_kappa, g_epsilon] = [[g_kappa], [g_epsilon]]"
  "greek_tokens unicode_basic [g_kappa, g_alpha, g_iota] = [[g_kappa], [g_alpha, g_iota]]"
  "greek_tokens unicode_basic [g_theta] = [[g_theta]]"
  using strip_accents_evaluated tokens_evaluated
  by (simp_all add: lat_tokens_def greek_tokens_def basic_lower_small is_capital_def)

theorem sort_possibilities_by_tiebreakers_positions_witness:
  "sort_possibilities_by_tiebreakers unicode_basic (ascii ''kai'')
     [[g_kappa, g_epsilon], [g_kappa, g_alpha, g_iota]] =
   returns [[g_kappa, g_alpha, g_iota], [g_kappa, g_epsilon]]
   \<and> sort_possibilities_by_tiebreakers unicode_basic (ascii ''thy'') [[g_kappa, g_epsilon], [g_theta]] =
     raises IndexError"
proof -
  have "sort_possibilities_by_tiebreakers unicode_basic (ascii ''kai'')
     [[g_kappa, g_epsilon], [g_kappa, g_alpha, g_iota]] =
     returns (sort_key (tiebreaker_score unicode_basic (ascii ''kai''))
       [[g_kappa, g_epsilon], [g_kappa, g_alpha, g_iota]])"
    by (rule sort_possibilities_by_tiebreakers_positions [THEN conjunct1, THEN mp])
      (use tokens_kai in simp)
  moreover have "tiebreaker_score unicode_basic (ascii ''kai'') [g_kappa, g_epsilon] = 100"
    "tiebreaker_score unicode_basic (ascii ''kai'') [g_kappa, g_alpha, g_iota] = 99"
    using tokens_kai
    by (simp_all add: tiebreaker_score_def tiebreaker_matches_def tiebreaker_dict_eq)
  moreover have "sort_possibilities_by_tiebreakers unicode_basic (ascii ''thy'')
      [[g_kappa, g_epsilon], [g_theta]] = raises IndexError"
  proof (rule sort_possibilities_by_tiebreakers_positions [THEN conjunct2, THEN mp])
    have "map_of tiebreaker_dict (lat_tokens unicode_basic (ascii ''thy'') ! 1) \<noteq> None"
      "\<not> 1 < length (greek_tokens unicode_basic [g_theta])"
      "1 < length (lat_tokens unicode_basic (ascii ''thy''))"
      using tokens_kai by (simp_all add: tiebreaker_dict_eq)
    then show "\<not> (\<forall>g \<in> set [[g_kappa, g_epsilon], [g_theta]].
        \<forall>i < length (lat_tokens unicode_basic (ascii ''thy'')).
          map_of tiebreaker_dict (lat_tokens unicode_basic (ascii ''thy'') ! i) \<noteq> None \<longrightarrow>
          i < length (greek_tokens unicode_basic g))"
      by (metis list.set_intros(1,2))
  qed
  ultimately show ?thesis by simp
qed

text \<open>
  C1 as stated fails: for the Latin word \<open>thy\<close>, whose second token \<open>y\<close> is a
  tiebreaker token, and the candidate theta, which has one token, the stage raises
  \<open>IndexError\<close>.
\<close>

theorem sort_possibilities_by_tiebreakers_counterexample:
  "sort_possibilities_by_tiebreakers unicode_basic (ascii ''thy'') [[g_theta]] = raises IndexError"
  using tokens_kai
  by (simp add: sort_possibilities_by_tiebreakers_eq tokens_suffice_def tiebreaker_dict_eq)

section \<open>The accent stage and the three stages in sequence\<close>

lemma sort_possibilities_by_accent_eq:
  "sort_possibilities_by_accent lat_string possibilities =
     returns (if find_accent lat_string = [] then possibilities
              else sort_key (accent_metric lat_string) possibilities)"
proof (cases "find_accent lat_string = []")
  case True
  then show ?thesis by (simp add: sort_possibilities_by_accent_def)
next
  case False
  have "mapc (\<lambda>greek_word.
          bindc (find_accent_graph_position greek_word (greek_digraph @ greek_monograph))
            (\<lambda>greek_accent_position. returns (abs (greek_accent_position
               - graph_position lat_string (lish_trigraph @ lish_digraph @ lish_monograph)))))
        possibilities = returns (map (accent_metric lat_string) possibilities)"
    by (rule mapc_returns) (simp add: find_accent_graph_position_returns accent_metric_def)
  with False show ?thesis
    by (simp add: sort_possibilities_by_accent_def find_accent_graph_position_returns
        sort_possibilities_by_stable)
qed

lemma sort_key_by_position:
  fixes f :: "'a \<Rightarrow> 'b::linorder"
  shows "sort_key f xs = map snd (sort_key (\<lambda>(i, x). (f x, i)) (enumerate 0 xs))"
proof -
  have "sorted (map fst (enumerate 0 xs))" by (simp add: map_fst_enumerate)
  then have "sort_key fst (enumerate 0 xs) = enumerate 0 xs"
    by (rule sort_key_id_if_sorted)
  then have a: "sort_key (\<lambda>p. (f (snd p), fst p)) (enumerate 0 xs) =
      sort_key (\<lambda>p. f (snd p)) (enumerate 0 xs)"
    using sort_key_twice [of "\<lambda>p. f (snd p)" fst "enumerate 0 xs"] by simp
  have b: "map snd (sort_key (\<lambda>p. f (snd p)) (enumerate 0 xs)) = sort_key f xs"
    using sort_key_map [of f snd "enumerate 0 xs"] by simp
  have k: "(\<lambda>(i, x). (f x, i)) = (\<lambda>p. (f (snd p), fst p))"
    by (simp add: case_prod_unfold)
  show ?thesis by (simp only: k a b)
qed

lemma sort_key_on_positions:
  fixes f :: "'a \<Rightarrow> 'b::linorder" and k :: "nat \<times> 'a \<Rightarrow> 'c::linorder"
  shows "sort_key f (map snd (sort_key k e)) = map snd (sort_key (\<lambda>p. (f (snd p), k p)) e)"
  by (simp add: sort_key_map sort_key_twice)

lemma positions_sorted: "map snd (sort_key fst (enumerate 0 xs)) = xs"
proof -
  have "sorted (map fst (enumerate 0 xs))" by (simp add: map_fst_enumerate)
  then have "sort_key fst (enumerate 0 xs) = enumerate 0 xs"
    by (rule sort_key_id_if_sorted)
  then show ?thesis by simp
qed

lemma two_sorts:
  fixes t :: "'a \<Rightarrow> 'b::linorder" and l :: "'a \<Rightarrow> 'c::linorder"
  shows "sort_key t (sort_key l xs) =
    map snd (sort_key (\<lambda>(i, x). (t x, l x, i)) (enumerate 0 xs))"
proof -
  have "sort_key t (sort_key l (map snd (sort_key fst (enumerate 0 xs)))) =
      map snd (sort_key (\<lambda>p. (t (snd p), l (snd p), fst p)) (enumerate 0 xs))"
    by (simp only: sort_key_on_positions)
  then show ?thesis by (simp only: positions_sorted case_prod_unfold)
qed

lemma three_sorts:
  fixes t :: "'a \<Rightarrow> 'b::linorder" and a :: "'a \<Rightarrow> 'c::linorder" and l :: "'a \<Rightarrow> 'd::linorder"
  shows "sort_key t (sort_key a (sort_key l xs)) =
    map snd (sort_key (\<lambda>(i, x). (t x, a x, l x, i)) (enumerate 0 xs))"
proof -
  have "sort_key t (sort_key a (sort_key l (map snd (sort_key fst (enumerate 0 xs))))) =
      map snd (sort_key (\<lambda>p. (t (snd p), a (snd p), l (snd p), fst p)) (enumerate 0 xs))"
    by (simp only: sort_key_on_positions)
  then show ?thesis by (simp only: positions_sorted case_prod_unfold)
qed

lemma tiebreakers_after_sort:
  assumes "set qs = set possibilities"
    and "\<forall>g \<in> set possibilities. \<forall>i < length (lat_tokens U lat_string).
        map_of tiebreaker_dict (lat_tokens U lat_string ! i) \<noteq> None \<longrightarrow>
        i < length (greek_tokens U g)"
  shows "sort_possibilities_by_tiebreakers U lat_string qs =
    returns (sort_key (tiebreaker_score U lat_string) qs)"
proof -
  from assms have "list_all (\<lambda>g. tokens_suffice (enumerate 0 (lat_tokens U lat_string))
      (greek_tokens U g)) qs"
    by (simp only: list_all_iff tokens_suffice_iff)
  then show ?thesis by (simp only: sort_possibilities_by_tiebreakers_eq if_True)
qed

lemma three_stages:
  assumes "\<forall>g \<in> set possibilities. \<forall>i < length (lat_tokens U lat_string).
        map_of tiebreaker_dict (lat_tokens U lat_string ! i) \<noteq> None \<longrightarrow>
        i < length (greek_tokens U g)"
  shows "bindc (sort_possibilities_by_length U lat_string possibilities) (\<lambda>possibilities.
         bindc (sort_possibilities_by_accent lat_string possibilities) (\<lambda>possibilities.
         sort_possibilities_by_tiebreakers U lat_string possibilities)) =
    returns (if find_accent lat_string = []
      then map snd (sort_key (\<lambda>(i, g).
             (tiebreaker_score U lat_string g, length_difference U lat_string g, i))
             (enumerate 0 possibilities))
      else map snd (sort_key (\<lambda>(i, g).
             (tiebreaker_score U lat_string g, accent_metric lat_string g,
              length_difference U lat_string g, i))
             (enumerate 0 possibilities)))"
proof (cases "find_accent lat_string = []")
  case True
  have "set (sort_key (length_difference U lat_string) possibilities) = set possibilities"
    by simp
  from tiebreakers_after_sort [OF this assms] True show ?thesis
    by (simp add: sort_possibilities_by_length_eq sort_possibilities_by_accent_eq two_sorts)
next
  case False
  have "set (sort_key (accent_metric lat_string)
      (sort_key (length_difference U lat_string) possibilities)) = set possibilities"
    by simp
  from tiebreakers_after_sort [OF this assms] False show ?thesis
    by (simp add: sort_possibilities_by_length_eq sort_possibilities_by_accent_eq three_sorts)
qed

lemma insort_key_cong_set:
  "f x = g x \<Longrightarrow> (\<And>y. y \<in> set ys \<Longrightarrow> f y = g y) \<Longrightarrow> insort_key f x ys = insort_key g x ys"
  by (induction ys) simp_all

lemma sort_key_cong_set:
  "(\<And>x. x \<in> set xs \<Longrightarrow> f x = g x) \<Longrightarrow> sort_key f xs = sort_key g xs"
proof (induction xs)
  case Nil
  show ?case by simp
next
  case (Cons x xs)
  then have "sort_key f xs = sort_key g xs" by simp
  moreover have "insort_key f x (sort_key g xs) = insort_key g x (sort_key g xs)"
    by (rule insort_key_cong_set) (use Cons.prems in simp_all)
  ultimately show ?case by simp
qed

lemma accent_metric_difference:
  assumes "small_to_accent lat_string" and "small_to_accent greek_word"
  shows "accent_metric lat_string greek_word = accent_difference lat_string greek_word"
  using assms
  by (simp add: accent_metric_def accent_difference_def graph_position_accent_position)

lemma accent_stage_by_accent_positions:
  assumes lat: "small_to_accent lat_string"
    and cands: "(\<exists>c \<in> set lat_string. carries_accent_mark c) \<longrightarrow>
        (\<forall>g \<in> set possibilities. small_to_accent g)"
  shows "sort_possibilities_by_accent lat_string possibilities =
           returns (if \<exists>c \<in> set lat_string. carries_accent_mark c
                    then sort_key (accent_difference lat_string) possibilities
                    else possibilities)"
proof (cases "\<exists>c \<in> set lat_string. carries_accent_mark c")
  case True
  with cands have "\<forall>g \<in> set possibilities. small_to_accent g" by simp
  with lat have "sort_key (accent_metric lat_string) possibilities =
      sort_key (accent_difference lat_string) possibilities"
    by (intro sort_key_cong_set) (simp add: accent_metric_difference)
  moreover from True lat have "find_accent lat_string \<noteq> []"
    by (simp add: find_accent_carries)
  ultimately show ?thesis using True by (simp add: sort_possibilities_by_accent_eq)
next
  case False
  with lat have "find_accent lat_string = []" by (simp add: find_accent_carries)
  with False show ?thesis by (simp add: sort_possibilities_by_accent_eq)
qed

lemma three_stages_by_accent_positions:
  assumes tokens: "\<forall>g \<in> set possibilities. \<forall>i < length (lat_tokens U lat_string).
        map_of tiebreaker_dict (lat_tokens U lat_string ! i) \<noteq> None \<longrightarrow>
        i < length (greek_tokens U g)"
    and lat: "small_to_accent lat_string"
    and cands: "(\<exists>c \<in> set lat_string. carries_accent_mark c) \<longrightarrow>
        (\<forall>g \<in> set possibilities. small_to_accent g)"
  shows "bindc (sort_possibilities_by_length U lat_string possibilities) (\<lambda>possibilities.
         bindc (sort_possibilities_by_accent lat_string possibilities) (\<lambda>possibilities.
         sort_possibilities_by_tiebreakers U lat_string possibilities)) =
    returns (if \<exists>c \<in> set lat_string. carries_accent_mark c
             then map snd (sort_key (\<lambda>(i, g).
                    (tiebreaker_score U lat_string g, accent_difference lat_string g,
                     length_difference U lat_string g, i))
                    (enumerate 0 possibilities))
             else map snd (sort_key (\<lambda>(i, g).
                    (tiebreaker_score U lat_string g, length_difference U lat_string g, i))
                    (enumerate 0 possibilities)))"
proof (cases "\<exists>c \<in> set lat_string. carries_accent_mark c")
  case True
  with cands have small: "\<forall>g \<in> set possibilities. small_to_accent g" by simp
  have "sort_key (\<lambda>(i, g). (tiebreaker_score U lat_string g, accent_metric lat_string g,
          length_difference U lat_string g, i)) (enumerate 0 possibilities) =
      sort_key (\<lambda>(i, g). (tiebreaker_score U lat_string g, accent_difference lat_string g,
          length_difference U lat_string g, i)) (enumerate 0 possibilities)"
  proof (rule sort_key_cong_set)
    fix p
    assume "p \<in> set (enumerate 0 possibilities)"
    then have "fst p < length possibilities" and "possibilities ! fst p = snd p"
      by (simp_all add: in_set_enumerate_eq)
    then have "snd p \<in> set possibilities" by (metis nth_mem)
    with small lat have "accent_metric lat_string (snd p) = accent_difference lat_string (snd p)"
      by (simp add: accent_metric_difference)
    then show "(case p of (i, g) \<Rightarrow> (tiebreaker_score U lat_string g, accent_metric lat_string g,
          length_difference U lat_string g, i)) =
        (case p of (i, g) \<Rightarrow> (tiebreaker_score U lat_string g, accent_difference lat_string g,
          length_difference U lat_string g, i))"
      by (simp add: case_prod_unfold)
  qed
  moreover from True lat have "find_accent lat_string \<noteq> []"
    by (simp add: find_accent_carries)
  ultimately show ?thesis
    using three_stages [OF tokens] True by simp
next
  case False
  with lat have "find_accent lat_string = []" by (simp add: find_accent_carries)
  with False show ?thesis
    using three_stages [OF tokens] by simp
qed

text \<open>
  C2, as amended. The length sort is a stable sort by the length difference. For a Latin
  word without blank, the accent sort returns the list as it is when the word carries no
  accent mark, and is a stable sort by the accent-position difference when it carries
  one and the Latin word and the candidates hold no blank and, up to and including their
  first letter with an accent mark, no capital letter. The tie-break sort is a stable
  sort by the tiebreaker score when every candidate has a token at every tiebreaker
  position of the Latin word. Under these conditions the three sorts in sequence, and so
  \<open>sorted_possibilities\<close> on the candidates it finds, yield exactly the lexicographic
  ordering by tiebreaker score, then accent-position difference, then length
  difference, then position in the given list when the Latin word carries an accent
  mark, and by tiebreaker score, then length difference, then position when it carries
  none.
\<close>

theorem ranking_is_lexicographic:
  "sort_possibilities_by_length U lat_string possibilities =
     returns (sort_key (length_difference U lat_string) possibilities)
   \<and> (small_to_accent lat_string \<and>
       ((\<exists>c \<in> set lat_string. carries_accent_mark c) \<longrightarrow>
        (\<forall>g \<in> set possibilities. small_to_accent g)) \<longrightarrow>
       sort_possibilities_by_accent lat_string possibilities =
           returns (if \<exists>c \<in> set lat_string. carries_accent_mark c
                    then sort_key (accent_difference lat_string) possibilities
                    else possibilities))
   \<and> ((\<forall>g \<in> set possibilities. \<forall>i < length (lat_tokens U lat_string).
          map_of tiebreaker_dict (lat_tokens U lat_string ! i) \<noteq> None \<longrightarrow>
          i < length (greek_tokens U g)) \<longrightarrow>
       sort_possibilities_by_tiebreakers U lat_string possibilities =
         returns (sort_key (tiebreaker_score U lat_string) possibilities))
   \<and> ((\<forall>g \<in> set possibilities. \<forall>i < length (lat_tokens U lat_string).
          map_of tiebreaker_dict (lat_tokens U lat_string ! i) \<noteq> None \<longrightarrow>
          i < length (greek_tokens U g)) \<and>
       small_to_accent lat_string \<and>
       ((\<exists>c \<in> set lat_string. carries_accent_mark c) \<longrightarrow>
        (\<forall>g \<in> set possibilities. small_to_accent g)) \<longrightarrow>
       bindc (sort_possibilities_by_length U lat_string possibilities) (\<lambda>possibilities.
         bindc (sort_possibilities_by_accent lat_string possibilities) (\<lambda>possibilities.
         sort_possibilities_by_tiebreakers U lat_string possibilities)) =
         returns (if \<exists>c \<in> set lat_string. carries_accent_mark c
             then map snd (sort_key (\<lambda>(i, g).
                    (tiebreaker_score U lat_string g, accent_difference lat_string g,
                     length_difference U lat_string g, i))
                    (enumerate 0 possibilities))
             else map snd (sort_key (\<lambda>(i, g).
                    (tiebreaker_score U lat_string g, length_difference U lat_string g, i))
                    (enumerate 0 possibilities)))
       \<and> (find_possibilities U uglish_dict lat_string = returns possibilities \<longrightarrow>
          sorted_possibilities U uglish_dict lat_string =
            returns (if \<exists>c \<in> set lat_string. carries_accent_mark c
             then map snd (sort_key (\<lambda>(i, g).
                    (tiebreaker_score U lat_string g, accent_difference lat_string g,
                     length_difference U lat_string g, i))
                    (enumerate 0 possibilities))
             else map snd (sort_key (\<lambda>(i, g).
                    (tiebreaker_score U lat_string g, length_difference U lat_string g, i))
                    (enumerate 0 possibilities)))))"
proof (intro conjI impI)
  show "sort_possibilities_by_length U lat_string possibilities =
      returns (sort_key (length_difference U lat_string) possibilities)"
    by (rule sort_possibilities_by_length_eq)
next
  assume "small_to_accent lat_string \<and>
       ((\<exists>c \<in> set lat_string. carries_accent_mark c) \<longrightarrow>
        (\<forall>g \<in> set possibilities. small_to_accent g))"
  then show "sort_possibilities_by_accent lat_string possibilities =
           returns (if \<exists>c \<in> set lat_string. carries_accent_mark c
                    then sort_key (accent_difference lat_string) possibilities
                    else possibilities)"
    by (intro accent_stage_by_accent_positions) simp_all
next
  assume "(\<forall>g \<in> set possibilities. \<forall>i < length (lat_tokens U lat_string).
          map_of tiebreaker_dict (lat_tokens U lat_string ! i) \<noteq> None \<longrightarrow>
          i < length (greek_tokens U g))"
  then show "sort_possibilities_by_tiebreakers U lat_string possibilities =
      returns (sort_key (tiebreaker_score U lat_string) possibilities)"
    by (intro tiebreakers_after_sort [OF refl])
next
  assume "(\<forall>g \<in> set possibilities. \<forall>i < length (lat_tokens U lat_string).
          map_of tiebreaker_dict (lat_tokens U lat_string ! i) \<noteq> None \<longrightarrow>
          i < length (greek_tokens U g)) \<and>
       small_to_accent lat_string \<and>
       ((\<exists>c \<in> set lat_string. carries_accent_mark c) \<longrightarrow>
        (\<forall>g \<in> set possibilities. small_to_accent g))"
  then show "bindc (sort_possibilities_by_length U lat_string possibilities) (\<lambda>possibilities.
         bindc (sort_possibilities_by_accent lat_string possibilities) (\<lambda>possibilities.
         sort_possibilities_by_tiebreakers U lat_string possibilities)) =
         returns (if \<exists>c \<in> set lat_string. carries_accent_mark c
             then map snd (sort_key (\<lambda>(i, g).
                    (tiebreaker_score U lat_string g, accent_difference lat_string g,
                     length_difference U lat_string g, i))
                    (enumerate 0 possibilities))
             else map snd (sort_key (\<lambda>(i, g).
                    (tiebreaker_score U lat_string g, length_difference U lat_string g, i))
                    (enumerate 0 possibilities)))"
    by (intro three_stages_by_accent_positions) simp_all
next
  assume "(\<forall>g \<in> set possibilities. \<forall>i < length (lat_tokens U lat_string).
          map_of tiebreaker_dict (lat_tokens U lat_string ! i) \<noteq> None \<longrightarrow>
          i < length (greek_tokens U g)) \<and>
       small_to_accent lat_string \<and>
       ((\<exists>c \<in> set lat_string. carries_accent_mark c) \<longrightarrow>
        (\<forall>g \<in> set possibilities. small_to_accent g))"
  then have "bindc (sort_possibilities_by_length U lat_string possibilities) (\<lambda>possibilities.
         bindc (sort_possibilities_by_accent lat_string possibilities) (\<lambda>possibilities.
         sort_possibilities_by_tiebreakers U lat_string possibilities)) =
         returns (if \<exists>c \<in> set lat_string. carries_accent_mark c
             then map snd (sort_key (\<lambda>(i, g).
                    (tiebreaker_score U lat_string g, accent_difference lat_string g,
                     length_difference U lat_string g, i))
                    (enumerate 0 possibilities))
             else map snd (sort_key (\<lambda>(i, g).
                    (tiebreaker_score U lat_string g, length_difference U lat_string g, i))
                    (enumerate 0 possibilities)))"
    by (intro three_stages_by_accent_positions) simp_all
  moreover assume "find_possibilities U uglish_dict lat_string = returns possibilities"
  ultimately show "sorted_possibilities U uglish_dict lat_string =
            returns (if \<exists>c \<in> set lat_string. carries_accent_mark c
             then map snd (sort_key (\<lambda>(i, g).
                    (tiebreaker_score U lat_string g, accent_difference lat_string g,
                     length_difference U lat_string g, i))
                    (enumerate 0 possibilities))
             else map snd (sort_key (\<lambda>(i, g).
                    (tiebreaker_score U lat_string g, length_difference U lat_string g, i))
                    (enumerate 0 possibilities)))"
    by (simp only: sorted_possibilities_def bindc_returns)
qed

lemma accent_position_evaluated:
  "accent_position [0x6B, l_a_acute, 0x69] (lish_trigraph @ lish_digraph @ lish_monograph) = 2"
  "accent_position (ascii ''ta'') (lish_trigraph @ lish_digraph @ lish_monograph) = 100"
  "accent_position [0xC9, 0x6C, 0x61] (lish_trigraph @ lish_digraph @ lish_monograph) = 1"
  "accent_position [0x54, 0x68, l_a_acute, 0x6F] (lish_trigraph @ lish_digraph @ lish_monograph) = 2"
  "accent_position [g_kappa, g_epsilon] (greek_digraph @ greek_monograph) = 100"
  "accent_position [g_kappa, g_epsilon_tonos] (greek_digraph @ greek_monograph) = 2"
  "accent_position [g_kappa, g_alpha, g_iota_tonos] (greek_digraph @ greek_monograph) = 2"
  "accent_position [g_tau, g_alpha_tonos] (greek_digraph @ greek_monograph) = 2"
  "accent_position [g_tau, g_alpha] (greek_digraph @ greek_monograph) = 100"
  "accent_position [g_epsilon, g_lamda, g_alpha_tonos] (greek_digraph @ greek_monograph) = 3"
  "accent_position [g_epsilon_tonos, g_lamda, g_alpha] (greek_digraph @ greek_monograph) = 1"
  "accent_position [g_theta, g_alpha_tonos, g_omicron] (greek_digraph @ greek_monograph) = 2"
  "accent_position [g_theta, g_alpha, g_omicron_tonos] (greek_digraph @ greek_monograph) = 3"
  by (simp_all add: accent_position_def carries_accent_mark_def accented_letters_def
      capital_accented_letters_def unaccent_letter_def without_accent_def
      greek_graph_list lish_graph_list keys_def g2u_dict_eq l2u_dict_eq basic_lower_def
      is_capital_def)

lemma graph_position_evaluated:
  "graph_position [0x54, 0x68, l_a_acute, 0x6F] (lish_trigraph @ lish_digraph @ lish_monograph) = 3"
  "graph_position [g_theta, g_alpha_tonos, g_omicron] (greek_digraph @ greek_monograph) = 2"
  "graph_position [g_theta, g_alpha, g_omicron_tonos] (greek_digraph @ greek_monograph) = 3"
  by (simp_all add: graph_position_def find_accent_def greek_accented_def lat_accented_def
      enumerate_eq_zip strip_def greek_accent_dictionary_eq lat_accent_dictionary_eq
      greek_graph_list lish_graph_list keys_def g2u_dict_eq l2u_dict_eq)

lemma find_accent_evaluated:
  "find_accent [0x6B, l_a_acute, 0x69] = [1]" "find_accent (ascii ''ta'') = []"
  "find_accent (ascii ''thy'') = []" "find_accent [0xC9, 0x6C, 0x61] = []"
  "find_accent [0x54, 0x68, l_a_acute, 0x6F] = [2]"
  by (simp_all add: find_accent_def greek_accented_def lat_accented_def enumerate_eq_zip)

lemma tokens_evaluated_more:
  "lat_tokens unicode_basic [0x6B, l_a_acute, 0x69] = [ascii ''k'', ascii ''ai'']"
  "lat_tokens unicode_basic (ascii ''ta'') = [ascii ''t'', ascii ''a'']"
  "lat_tokens unicode_basic [0xC9, 0x6C, 0x61] = [ascii ''e'', ascii ''l'', ascii ''a'']"
  "lat_tokens unicode_basic [0x54, 0x68, l_a_acute, 0x6F] = [ascii ''th'', ascii ''a'', ascii ''o'']"
  "greek_tokens unicode_basic [g_kappa, g_epsilon_tonos] = [[g_kappa], [g_epsilon]]"
  "greek_tokens unicode_basic [g_kappa, g_alpha, g_iota_tonos] = [[g_kappa], [g_alpha, g_iota]]"
  "greek_tokens unicode_basic [g_tau, g_alpha_tonos] = [[g_tau], [g_alpha]]"
  "greek_tokens unicode_basic [g_tau, g_alpha] = [[g_tau], [g_alpha]]"
  "greek_tokens unicode_basic [g_epsilon, g_lamda, g_alpha_tonos] = [[g_epsilon], [g_lamda], [g_alpha]]"
  "greek_tokens unicode_basic [g_epsilon_tonos, g_lamda, g_alpha] = [[g_epsilon], [g_lamda], [g_alpha]]"
  "greek_tokens unicode_basic [g_theta, g_alpha_tonos, g_omicron] = [[g_theta], [g_alpha], [g_omicron]]"
  "greek_tokens unicode_basic [g_theta, g_alpha, g_omicron_tonos] = [[g_theta], [g_alpha], [g_omicron]]"
  by (simp_all add: lat_tokens_def greek_tokens_def basic_lower_def is_capital_def strip_def
      greek_accent_dictionary_eq lat_accent_dictionary_eq keys_def g2u_dict_eq l2u_dict_eq)

lemma scores_evaluated:
  "tiebreaker_score unicode_basic [0x6B, l_a_acute, 0x69] [g_kappa, g_epsilon] = 100"
  "tiebreaker_score unicode_basic [0x6B, l_a_acute, 0x69] [g_kappa, g_epsilon_tonos] = 100"
  "tiebreaker_score unicode_basic [0x6B, l_a_acute, 0x69] [g_kappa, g_alpha, g_iota_tonos] = 99"
  "tiebreaker_score unicode_basic (ascii ''ta'') [g_tau, g_alpha_tonos] = 100"
  "tiebreaker_score unicode_basic (ascii ''ta'') [g_tau, g_alpha] = 100"
  "tiebreaker_score unicode_basic [0xC9, 0x6C, 0x61] [g_epsilon, g_lamda, g_alpha_tonos] = 100"
  "tiebreaker_score unicode_basic [0xC9, 0x6C, 0x61] [g_epsilon_tonos, g_lamda, g_alpha] = 100"
  "tiebreaker_score unicode_basic [0x54, 0x68, l_a_acute, 0x6F] [g_theta, g_alpha_tonos, g_omicron] = 100"
  "tiebreaker_score unicode_basic [0x54, 0x68, l_a_acute, 0x6F] [g_theta, g_alpha, g_omicron_tonos] = 100"
  using tokens_evaluated_more tokens_kai
  by (simp_all add: tiebreaker_score_def tiebreaker_matches_def tiebreaker_dict_eq)

lemma length_differences_evaluated:
  "length_difference unicode_basic [0x6B, l_a_acute, 0x69] g = abs (int (length g) - 3)"
  "length_difference unicode_basic (ascii ''ta'') g = abs (int (length g) - 2)"
  "length_difference unicode_basic [0xC9, 0x6C, 0x61] g = abs (int (length g) - 3)"
  "length_difference unicode_basic [0x54, 0x68, l_a_acute, 0x6F] g = abs (int (length g) - 3)"
  by (simp_all add: length_difference_def adjusted_latin_length_def basic_lower_def
      is_capital_def)

theorem ranking_is_lexicographic_witness:
  "bindc (sort_possibilities_by_length unicode_basic [0x6B, l_a_acute, 0x69]
            [[g_kappa, g_epsilon], [g_kappa, g_epsilon_tonos], [g_kappa, g_alpha, g_iota_tonos]])
     (\<lambda>possibilities.
      bindc (sort_possibilities_by_accent [0x6B, l_a_acute, 0x69] possibilities) (\<lambda>possibilities.
      sort_possibilities_by_tiebreakers unicode_basic [0x6B, l_a_acute, 0x69] possibilities)) =
   returns [[g_kappa, g_alpha, g_iota_tonos], [g_kappa, g_epsilon_tonos], [g_kappa, g_epsilon]]"
proof -
  let ?lat = "[0x6B, l_a_acute, 0x69]"
  let ?ps = "[[g_kappa, g_epsilon], [g_kappa, g_epsilon_tonos], [g_kappa, g_alpha, g_iota_tonos]]"
  have ok: "\<forall>g \<in> set ?ps. \<forall>i < length (lat_tokens unicode_basic ?lat).
        map_of tiebreaker_dict (lat_tokens unicode_basic ?lat ! i) \<noteq> None \<longrightarrow>
        i < length (greek_tokens unicode_basic g)"
    using tokens_evaluated_more tokens_kai by simp
  have lat: "small_to_accent ?lat"
    by (simp add: small_to_accent_def carries_accent_mark_def accented_letters_def
        capital_accented_letters_def is_capital_def)
  have cands: "\<forall>g \<in> set ?ps. small_to_accent g"
    by (simp add: small_to_accent_def carries_accent_mark_def accented_letters_def
        capital_accented_letters_def is_capital_def)
  have keys: "map snd (sort_key (\<lambda>(i, g).
        (tiebreaker_score unicode_basic ?lat g, accent_difference ?lat g,
         length_difference unicode_basic ?lat g, i)) (enumerate 0 ?ps)) =
      [[g_kappa, g_alpha, g_iota_tonos], [g_kappa, g_epsilon_tonos], [g_kappa, g_epsilon]]"
    using scores_evaluated accent_position_evaluated length_differences_evaluated
    by (simp add: accent_difference_def less_eq_prod_def)
  have mark: "\<exists>c \<in> set ?lat. carries_accent_mark c"
    by (simp add: carries_accent_mark_def accented_letters_def)
  from ok lat cands
  have "bindc (sort_possibilities_by_length unicode_basic ?lat ?ps) (\<lambda>possibilities.
         bindc (sort_possibilities_by_accent ?lat possibilities) (\<lambda>possibilities.
         sort_possibilities_by_tiebreakers unicode_basic ?lat possibilities)) =
      returns (if \<exists>c \<in> set ?lat. carries_accent_mark c
         then map snd (sort_key (\<lambda>(i, g).
                (tiebreaker_score unicode_basic ?lat g, accent_difference ?lat g,
                 length_difference unicode_basic ?lat g, i)) (enumerate 0 ?ps))
         else map snd (sort_key (\<lambda>(i, g).
                (tiebreaker_score unicode_basic ?lat g, length_difference unicode_basic ?lat g, i))
                (enumerate 0 ?ps)))"
    by (intro ranking_is_lexicographic [of unicode_basic ?lat ?ps, THEN conjunct2,
          THEN conjunct2, THEN conjunct2, THEN mp, THEN conjunct1] conjI impI)
  with mark keys show ?thesis by (simp only: if_True)
qed

text \<open>
  C2 as stated fails in three ways. For the Latin word \<open>ta\<close>, which carries no accent
  mark, and the candidates tau alpha-with-tonos, tau alpha, the three sorts in sequence
  leave the candidates in the given order, while the lexicographic ordering with the
  accent-position difference as its second key puts the candidate without accent
  first. For the Latin word \<open>thy\<close> and the candidate theta the tie-break sort, and with
  it the sequence, raises \<open>IndexError\<close>. For a Latin word with a capital letter before
  or at its accent mark the accent sort does not go by the accent positions: for
  E-acute \<open>l\<close> \<open>a\<close> and the candidates epsilon lambda alpha-with-tonos,
  epsilon-with-tonos lambda alpha, the sequence leaves the candidates in the given
  order, while the lexicographic ordering puts the candidate accented on its first
  letter first; for \<open>T\<close> \<open>h\<close> a-acute \<open>o\<close> and the candidates theta alpha-with-tonos
  omicron, theta alpha omicron-with-tonos, the sequence puts the candidate accented on
  its third letter first, while the lexicographic ordering leaves the candidate
  accented on its second letter, which is the second graph of the Latin word, first.
\<close>

theorem ranking_without_accent_counterexample:
  "bindc (sort_possibilities_by_length unicode_basic (ascii ''ta'')
            [[g_tau, g_alpha_tonos], [g_tau, g_alpha]])
     (\<lambda>possibilities.
      bindc (sort_possibilities_by_accent (ascii ''ta'') possibilities) (\<lambda>possibilities.
      sort_possibilities_by_tiebreakers unicode_basic (ascii ''ta'') possibilities)) =
     returns [[g_tau, g_alpha_tonos], [g_tau, g_alpha]]
   \<and> map snd (sort_key (\<lambda>(i, g).
        (tiebreaker_score unicode_basic (ascii ''ta'') g, accent_difference (ascii ''ta'') g,
         length_difference unicode_basic (ascii ''ta'') g, i))
        (enumerate 0 [[g_tau, g_alpha_tonos], [g_tau, g_alpha]])) =
     [[g_tau, g_alpha], [g_tau, g_alpha_tonos]]
   \<and> sort_possibilities_by_tiebreakers unicode_basic (ascii ''thy'') [[g_theta]] =
     raises IndexError
   \<and> bindc (sort_possibilities_by_length unicode_basic (ascii ''thy'') [[g_theta]])
     (\<lambda>possibilities.
      bindc (sort_possibilities_by_accent (ascii ''thy'') possibilities) (\<lambda>possibilities.
      sort_possibilities_by_tiebreakers unicode_basic (ascii ''thy'') possibilities)) =
     raises IndexError
   \<and> bindc (sort_possibilities_by_length unicode_basic [0xC9, 0x6C, 0x61]
            [[g_epsilon, g_lamda, g_alpha_tonos], [g_epsilon_tonos, g_lamda, g_alpha]])
     (\<lambda>possibilities.
      bindc (sort_possibilities_by_accent [0xC9, 0x6C, 0x61] possibilities) (\<lambda>possibilities.
      sort_possibilities_by_tiebreakers unicode_basic [0xC9, 0x6C, 0x61] possibilities)) =
     returns [[g_epsilon, g_lamda, g_alpha_tonos], [g_epsilon_tonos, g_lamda, g_alpha]]
   \<and> map snd (sort_key (\<lambda>(i, g).
        (tiebreaker_score unicode_basic [0xC9, 0x6C, 0x61] g,
         accent_difference [0xC9, 0x6C, 0x61] g,
         length_difference unicode_basic [0xC9, 0x6C, 0x61] g, i))
        (enumerate 0 [[g_epsilon, g_lamda, g_alpha_tonos], [g_epsilon_tonos, g_lamda, g_alpha]])) =
     [[g_epsilon_tonos, g_lamda, g_alpha], [g_epsilon, g_lamda, g_alpha_tonos]]
   \<and> bindc (sort_possibilities_by_length unicode_basic [0x54, 0x68, l_a_acute, 0x6F]
            [[g_theta, g_alpha_tonos, g_omicron], [g_theta, g_alpha, g_omicron_tonos]])
     (\<lambda>possibilities.
      bindc (sort_possibilities_by_accent [0x54, 0x68, l_a_acute, 0x6F] possibilities)
        (\<lambda>possibilities.
      sort_possibilities_by_tiebreakers unicode_basic [0x54, 0x68, l_a_acute, 0x6F] possibilities)) =
     returns [[g_theta, g_alpha, g_omicron_tonos], [g_theta, g_alpha_tonos, g_omicron]]
   \<and> map snd (sort_key (\<lambda>(i, g).
        (tiebreaker_score unicode_basic [0x54, 0x68, l_a_acute, 0x6F] g,
         accent_difference [0x54, 0x68, l_a_acute, 0x6F] g,
         length_difference unicode_basic [0x54, 0x68, l_a_acute, 0x6F] g, i))
        (enumerate 0 [[g_theta, g_alpha_tonos, g_omicron], [g_theta, g_alpha, g_omicron_tonos]])) =
     [[g_theta, g_alpha_tonos, g_omicron], [g_theta, g_alpha, g_omicron_tonos]]"
proof (intro conjI)
  let ?lat = "ascii ''ta''"
  let ?ps = "[[g_tau, g_alpha_tonos], [g_tau, g_alpha]]"
  have ok: "\<forall>g \<in> set ?ps. \<forall>i < length (lat_tokens unicode_basic ?lat).
        map_of tiebreaker_dict (lat_tokens unicode_basic ?lat ! i) \<noteq> None \<longrightarrow>
        i < length (greek_tokens unicode_basic g)"
    using tokens_evaluated_more by simp
  have two: "map snd (sort_key (\<lambda>(i, g).
        (tiebreaker_score unicode_basic ?lat g, length_difference unicode_basic ?lat g, i))
        (enumerate 0 ?ps)) = ?ps"
    using scores_evaluated length_differences_evaluated
    by (simp add: less_eq_prod_def)
  have "find_accent ?lat = []" using find_accent_evaluated by simp
  with three_stages [OF ok] two
  show "bindc (sort_possibilities_by_length unicode_basic ?lat ?ps)
     (\<lambda>possibilities.
      bindc (sort_possibilities_by_accent ?lat possibilities) (\<lambda>possibilities.
      sort_possibilities_by_tiebreakers unicode_basic ?lat possibilities)) = returns ?ps"
    by (simp only: if_True simp_thms)
  show "map snd (sort_key (\<lambda>(i, g).
        (tiebreaker_score unicode_basic ?lat g, accent_difference ?lat g,
         length_difference unicode_basic ?lat g, i)) (enumerate 0 ?ps)) =
      [[g_tau, g_alpha], [g_tau, g_alpha_tonos]]"
    using scores_evaluated accent_position_evaluated length_differences_evaluated
    by (simp add: accent_difference_def less_eq_prod_def)
next
  show raise: "sort_possibilities_by_tiebreakers unicode_basic (ascii ''thy'') [[g_theta]] =
      raises IndexError"
    using tokens_kai
    by (simp add: sort_possibilities_by_tiebreakers_eq tokens_suffice_def tiebreaker_dict_eq)
  have "find_accent (ascii ''thy'') = []" using find_accent_evaluated by simp
  then have "sort_possibilities_by_accent (ascii ''thy'') [[g_theta]] = returns [[g_theta]]"
    by (simp only: sort_possibilities_by_accent_eq if_True simp_thms)
  with raise
  show "bindc (sort_possibilities_by_length unicode_basic (ascii ''thy'') [[g_theta]])
     (\<lambda>possibilities.
      bindc (sort_possibilities_by_accent (ascii ''thy'') possibilities) (\<lambda>possibilities.
      sort_possibilities_by_tiebreakers unicode_basic (ascii ''thy'') possibilities)) =
     raises IndexError"
    by (simp add: sort_possibilities_by_length_eq)
next
  let ?lat = "[0xC9, 0x6C, 0x61]"
  let ?ps = "[[g_epsilon, g_lamda, g_alpha_tonos], [g_epsilon_tonos, g_lamda, g_alpha]]"
  have ok: "\<forall>g \<in> set ?ps. \<forall>i < length (lat_tokens unicode_basic ?lat).
        map_of tiebreaker_dict (lat_tokens unicode_basic ?lat ! i) \<noteq> None \<longrightarrow>
        i < length (greek_tokens unicode_basic g)"
    using tokens_evaluated_more by simp
  have two: "map snd (sort_key (\<lambda>(i, g).
        (tiebreaker_score unicode_basic ?lat g, length_difference unicode_basic ?lat g, i))
        (enumerate 0 ?ps)) = ?ps"
    using scores_evaluated length_differences_evaluated
    by (simp add: less_eq_prod_def)
  have "find_accent ?lat = []" using find_accent_evaluated by simp
  with three_stages [OF ok] two
  show "bindc (sort_possibilities_by_length unicode_basic ?lat ?ps)
     (\<lambda>possibilities.
      bindc (sort_possibilities_by_accent ?lat possibilities) (\<lambda>possibilities.
      sort_possibilities_by_tiebreakers unicode_basic ?lat possibilities)) = returns ?ps"
    by (simp only: if_True simp_thms)
  show "map snd (sort_key (\<lambda>(i, g).
        (tiebreaker_score unicode_basic ?lat g, accent_difference ?lat g,
         length_difference unicode_basic ?lat g, i)) (enumerate 0 ?ps)) =
      [[g_epsilon_tonos, g_lamda, g_alpha], [g_epsilon, g_lamda, g_alpha_tonos]]"
    using scores_evaluated accent_position_evaluated length_differences_evaluated
    by (simp add: accent_difference_def less_eq_prod_def)
next
  let ?lat = "[0x54, 0x68, l_a_acute, 0x6F]"
  let ?ps = "[[g_theta, g_alpha_tonos, g_omicron], [g_theta, g_alpha, g_omicron_tonos]]"
  have ok: "\<forall>g \<in> set ?ps. \<forall>i < length (lat_tokens unicode_basic ?lat).
        map_of tiebreaker_dict (lat_tokens unicode_basic ?lat ! i) \<noteq> None \<longrightarrow>
        i < length (greek_tokens unicode_basic g)"
    using tokens_evaluated_more by simp
  have code: "map snd (sort_key (\<lambda>(i, g).
        (tiebreaker_score unicode_basic ?lat g, accent_metric ?lat g,
         length_difference unicode_basic ?lat g, i)) (enumerate 0 ?ps)) =
      [[g_theta, g_alpha, g_omicron_tonos], [g_theta, g_alpha_tonos, g_omicron]]"
    using scores_evaluated graph_position_evaluated length_differences_evaluated
    by (simp add: accent_metric_def less_eq_prod_def)
  have "find_accent ?lat \<noteq> []" using find_accent_evaluated by simp
  with three_stages [OF ok] code
  show "bindc (sort_possibilities_by_length unicode_basic ?lat ?ps)
     (\<lambda>possibilities.
      bindc (sort_possibilities_by_accent ?lat possibilities) (\<lambda>possibilities.
      sort_possibilities_by_tiebreakers unicode_basic ?lat possibilities)) =
     returns [[g_theta, g_alpha, g_omicron_tonos], [g_theta, g_alpha_tonos, g_omicron]]"
    by (simp only: if_False simp_thms)
  show "map snd (sort_key (\<lambda>(i, g).
        (tiebreaker_score unicode_basic ?lat g, accent_difference ?lat g,
         length_difference unicode_basic ?lat g, i)) (enumerate 0 ?ps)) = ?ps"
    using scores_evaluated accent_position_evaluated length_differences_evaluated
    by (simp add: accent_difference_def less_eq_prod_def)
qed

section \<open>Canonical forms of Greek words\<close>

lemma replace_transduce:
  "replace s g2u_dict = returns (transduce g2u_dict s [[]])"
  "replace s l2u_dict = returns (transduce l2u_dict s [[]])"
  by (simp_all add: replace_def replace_loop_transduce keys_nonempty)

lemma replace_in_list_single:
  "replace s T = returns r \<Longrightarrow> replace_in_list [s] T = returns r"
  by (simp add: replace_in_list_def)

lemma greek_to_uglish_eq:
  "greek_to_uglish U w =
     returns (transduce g2u_dict (map (strip greek_accent_dictionary) (lower U w)) [[]])"
  by (simp add: greek_to_uglish_def replace_in_list_single replace_transduce)

lemma is_greek_eq:
  "is_greek U w =
     returns (list_all (\<lambda>letter. is_greek_letter [letter])
       (map (strip greek_accent_dictionary) (lower U w)))"
  by (simp add: is_greek_def)

lemma startswith_hd: "startswith (c # s) k \<Longrightarrow> k \<noteq> [] \<Longrightarrow> hd k = c"
  by (cases k) simp_all

lemma transduce_identity:
  "(\<And>c k v. c \<in> set s \<Longrightarrow> (k, v) \<in> set T \<Longrightarrow> k \<noteq> [] \<and> hd k \<noteq> c) \<Longrightarrow>
   transduce T s out = map (\<lambda>x. x @ s) out"
proof (induction s arbitrary: out)
  case Nil
  show ?case by simp
next
  case (Cons c s)
  have "find (\<lambda>(g, alts). startswith (c # s) g) T = None"
  proof (rule ccontr)
    assume "find (\<lambda>(g, alts). startswith (c # s) g) T \<noteq> None"
    then obtain g alts where "(g, alts) \<in> set T" "startswith (c # s) g"
      by (auto simp: find_None_iff)
    with Cons.prems [of c g alts] startswith_hd [of c s g] show False by simp
  qed
  moreover have "transduce T s (map (\<lambda>x. x @ [c]) out) =
      map (\<lambda>x. x @ s) (map (\<lambda>x. x @ [c]) out)"
    by (rule Cons.IH) (use Cons.prems in auto)
  ultimately show ?case by simp
qed

lemma transduce_alphabet:
  "[] \<notin> set (keys T) \<Longrightarrow> (\<And>c. c \<in> set s \<Longrightarrow> [c] \<in> set (keys T)) \<Longrightarrow>
   (\<And>p. p \<in> set out \<Longrightarrow> set p \<subseteq> V) \<Longrightarrow> set (concat (map snd T)) \<subseteq> V \<Longrightarrow>
   u \<in> set (transduce T s out) \<Longrightarrow> set u \<subseteq> V"
proof (induction T s out rule: transduce.induct)
  case (1 T out)
  then show ?case by simp
next
  case (2 T c s out)
  from "2.prems"(2) [of c] obtain v where "([c], v) \<in> set T"
    by (auto simp: keys_def)
  then have "find (\<lambda>(g, alts). startswith (c # s) g) T \<noteq> None"
    by (auto simp: find_None_iff)
  then obtain g alts where f: "find (\<lambda>(g, alts). startswith (c # s) g) T = Some (g, alts)"
    by auto
  then have mem: "(g, alts) \<in> set T" by (auto dest: find_in_set)
  with "2.prems"(1) have g: "g \<noteq> []" by (force simp: keys_def)
  from mem "2.prems"(4) have alts: "set alts \<subseteq> V" by force
  have out': "set p \<subseteq> V" if "p \<in> set (fan_out out alts)" for p
  proof -
    from that obtain x a where x: "x \<in> set out" and a: "a \<in> set alts" and p: "p = x @ [a]"
      by (auto simp: fan_out_def)
    from "2.prems"(3) [OF x] a alts show ?thesis by (auto simp: p)
  qed
  have rest: "[c'] \<in> set (keys T)" if "c' \<in> set (drop (length g) (c # s))" for c'
    using that "2.prems"(2) by (meson in_set_dropD)
  from "2.prems"(5) f g have "u \<in> set (transduce T (drop (length g) (c # s)) (fan_out out alts))"
    by simp
  from "2.IH"(2) [OF f refl g "2.prems"(1) rest out' "2.prems"(4) this]
  show ?case .
qed

lemma stripped_not_accented:
  "strip greek_accent_dictionary c \<notin> {g_alpha_tonos, g_epsilon_tonos, g_eta_tonos, g_iota_tonos,
     g_iota_dialytika_tonos, g_omicron_tonos, g_upsilon_tonos, g_upsilon_dialytika_tonos,
     g_omega_tonos}"
  by (simp add: strip_def greek_accent_dictionary_eq)

lemma greek_letter_is_key:
  assumes "is_greek_letter [d]"
    and "d \<notin> {g_alpha_tonos, g_epsilon_tonos, g_eta_tonos, g_iota_tonos,
     g_iota_dialytika_tonos, g_omicron_tonos, g_upsilon_tonos, g_upsilon_dialytika_tonos,
     g_omega_tonos}"
  shows "[d] \<in> set (keys g2u_dict)"
proof -
  from assms have "d \<in> set greek_monograph" "d \<noteq> blank"
    by (auto simp: is_greek_letter_def contains_single greek_accented_def)
  then show ?thesis
    by (simp add: greek_monograph_def keys_def g2u_dict_eq)
qed

lemma canonical_symbols_start_no_graph:
  "\<forall>c \<in> set (concat (map snd g2u_dict)).
     (\<forall>(k, v) \<in> set g2u_dict. k \<noteq> [] \<and> hd k \<noteq> c)
     \<and> (\<forall>(k, v) \<in> set greek_accent_dictionary. k \<noteq> [] \<and> hd k \<noteq> c)"
  by (simp add: g2u_dict_eq greek_accent_dictionary_eq)

lemma canonical_form_fixed:
  assumes "set u \<subseteq> set (concat (map snd g2u_dict))"
  shows "transduce greek_accent_dictionary u [[]] = [u]" "transduce g2u_dict u [[]] = [u]"
proof -
  have "k \<noteq> [] \<and> hd k \<noteq> c" if "c \<in> set u" "(k, v) \<in> set greek_accent_dictionary" for c k v
    using that assms canonical_symbols_start_no_graph by blast
  then show "transduce greek_accent_dictionary u [[]] = [u]"
    by (simp add: transduce_identity)
  have "k \<noteq> [] \<and> hd k \<noteq> c" if "c \<in> set u" "(k, v) \<in> set g2u_dict" for c k v
    using that assms canonical_symbols_start_no_graph by blast
  then show "transduce g2u_dict u [[]] = [u]"
    by (simp add: transduce_identity)
qed

lemma replace_greek_accents_transduce:
  "replace s greek_accent_dictionary = returns (transduce greek_accent_dictionary s [[]])"
  by (simp only: replace_def replace_loop_transduce [OF keys_nonempty(1)])

lemma canonical_forms_alphabet:
  assumes "is_greek U w = returns True" and "greek_to_uglish U w = returns us" and "u \<in> set us"
  shows "set u \<subseteq> set (concat (map snd g2u_dict))"
proof -
  let ?v = "map (strip greek_accent_dictionary) (lower U w)"
  from assms(1) have letters: "list_all (\<lambda>letter. is_greek_letter [letter]) ?v"
    by (simp add: is_greek_eq)
  have "[c] \<in> set (keys g2u_dict)" if "c \<in> set ?v" for c
  proof -
    from that letters have "is_greek_letter [c]" by (auto simp: list_all_iff)
    moreover from that stripped_not_accented have "c \<notin> {g_alpha_tonos, g_epsilon_tonos,
      g_eta_tonos, g_iota_tonos, g_iota_dialytika_tonos, g_omicron_tonos, g_upsilon_tonos,
      g_upsilon_dialytika_tonos, g_omega_tonos}"
      by auto
    ultimately show ?thesis by (rule greek_letter_is_key)
  qed
  moreover from assms(2,3) have "u \<in> set (transduce g2u_dict ?v [[]])"
    by (simp add: greek_to_uglish_eq)
  ultimately show ?thesis
    using transduce_alphabet [OF keys_nonempty(3), of ?v "[[]]" "set (concat (map snd g2u_dict))" u]
    by simp
qed

text \<open>
  C4, as amended. For every word \<open>w\<close> for which \<open>is_greek(w)\<close> holds and every canonical
  string \<open>u\<close> in \<open>greek_to_uglish(w)\<close>, the two table stages of \<open>greek_to_uglish\<close>, the
  accent table and then the Greek graph table, applied to \<open>u\<close> return exactly \<open>[u]\<close>: no
  canonical symbol starts an entry of either table. \<open>greek_to_uglish(u)\<close> itself, which
  lowercases \<open>u\<close> first, returns \<open>[u]\<close> when \<open>u\<close> is its own lowercase form.
\<close>

theorem canonical_form_is_fixed:
  assumes "is_greek U w = returns True" and "greek_to_uglish U w = returns us" and "u \<in> set us"
  shows "bindc (replace u greek_accent_dictionary) (\<lambda>s. replace_in_list s g2u_dict) = returns [u]
     \<and> (lower U u = u \<longrightarrow> greek_to_uglish U u = returns [u])"
proof -
  from canonical_forms_alphabet [OF assms]
  have fixed: "transduce greek_accent_dictionary u [[]] = [u]" "transduce g2u_dict u [[]] = [u]"
    by (rule canonical_form_fixed)+
  have stages: "bindc (replace s greek_accent_dictionary) (\<lambda>s. replace_in_list s g2u_dict) =
      returns (concat (map (\<lambda>x. transduce g2u_dict x [[]])
        (transduce greek_accent_dictionary s [[]])))" for s
    by (simp only: replace_greek_accents_transduce bindc_returns replace_in_list_def
        mapc_returns [OF replace_transduce(1)])
  from stages [of u] fixed
  have 1: "bindc (replace u greek_accent_dictionary) (\<lambda>s. replace_in_list s g2u_dict) =
      returns [u]"
    by simp
  from 1 show ?thesis by (simp add: greek_to_uglish_def)
qed

lemma canonical_forms_evaluated:
  "is_greek unicode_basic [g_kappa, g_alpha, g_iota] = returns True"
  "greek_to_uglish unicode_basic [g_kappa, g_alpha, g_iota] = returns [ascii ''ke'']"
  "is_greek unicode_basic [g_alpha, g_upsilon] = returns True"
  "greek_to_uglish unicode_basic [g_alpha, g_upsilon] = returns [ascii ''A'']"
  "greek_to_uglish unicode_basic (ascii ''A'') = returns [ascii ''a'']"
  by (simp_all add: is_greek_eq greek_to_uglish_eq basic_lower_def is_capital_def strip_def
      greek_accent_dictionary_eq is_greek_letter_def contains_single greek_monograph_def
      greek_accented_def g2u_dict_eq fan_out_def)

theorem canonical_form_is_fixed_witness:
  "is_greek unicode_basic [g_kappa, g_alpha, g_iota] = returns True
   \<and> greek_to_uglish unicode_basic [g_kappa, g_alpha, g_iota] = returns [ascii ''ke'']
   \<and> bindc (replace (ascii ''ke'') greek_accent_dictionary) (\<lambda>s. replace_in_list s g2u_dict) =
       returns [ascii ''ke'']
   \<and> greek_to_uglish unicode_basic (ascii ''ke'') = returns [ascii ''ke'']"
proof -
  have g: "is_greek unicode_basic [g_kappa, g_alpha, g_iota] = returns True"
    and u: "greek_to_uglish unicode_basic [g_kappa, g_alpha, g_iota] = returns [ascii ''ke'']"
    by (rule canonical_forms_evaluated)+
  have m: "ascii ''ke'' \<in> set [ascii ''ke'']" by simp
  have l: "lower unicode_basic (ascii ''ke'') = ascii ''ke''"
    by (simp add: basic_lower_def is_capital_def)
  from canonical_form_is_fixed [OF g u m] l g u show ?thesis by simp
qed

text \<open>
  C4 as stated fails on a canonical string with an uppercase symbol: the canonical form
  of the Greek word alpha upsilon is \<open>A\<close>, and \<open>greek_to_uglish\<close> of \<open>A\<close>, which
  lowercases its argument, is \<open>a\<close>.
\<close>

theorem canonical_form_lowercased_counterexample:
  "is_greek unicode_basic [g_alpha, g_upsilon] = returns True
   \<and> greek_to_uglish unicode_basic [g_alpha, g_upsilon] = returns [ascii ''A'']
   \<and> greek_to_uglish unicode_basic (ascii ''A'') = returns [ascii ''a'']
   \<and> ascii ''a'' \<noteq> ascii ''A''"
  using canonical_forms_evaluated by simp

section \<open>Lookup, ranking and the guess of a word\<close>

lemma bindc_assoc: "bindc (bindc m f) g = bindc m (\<lambda>x. bindc (f x) g)"
  by (simp add: bindc_def split: option.splits sum.splits)

lemma bindc_returns_right: "bindc m returns = m"
  by (simp add: bindc_def returns_def split: option.splits sum.splits)

lemma lish_to_uglish_eq: "lish_to_uglish U lat_string = returns (uglish_forms U lat_string)"
  by (simp add: lish_to_uglish_def replace_in_list_single replace_transduce uglish_forms_def)

lemma find_possibilities_eq:
  "find_possibilities U uglish_dict lat_string = returns (candidates U uglish_dict lat_string)"
  by (simp add: find_possibilities_def lish_to_uglish_eq candidates_def)

lemma sorted_possibilities_none:
  "find_possibilities U uglish_dict lat_string = returns [] \<Longrightarrow>
   sorted_possibilities U uglish_dict lat_string = returns []"
  by (simp add: sorted_possibilities_def sort_possibilities_by_length_eq
      sort_possibilities_by_accent_eq sort_possibilities_by_tiebreakers_eq)

lemma guess_Cons:
  "guess U uglish_dict (first # rest) =
     bindc (sorted_possibilities U uglish_dict (first # rest)) (\<lambda>guess_list.
       (let translated_word = (case guess_list of [] \<Rightarrow> first # rest | best # _ \<Rightarrow> best)
        in if isupper U [first]
           then (case translated_word of
                   [] \<Rightarrow> raises IndexError
                 | c # cs \<Rightarrow> returns (upper U [c] @ cs))
           else returns translated_word))"
  by (simp add: guess_def)

lemma guess_fallback:
  assumes "word \<noteq> []"
    and "find_possibilities U uglish_dict word = returns []"
    and "isupper U [hd word] \<longrightarrow> upper U [hd word] = [hd word]"
  shows "guess U uglish_dict word = returns word"
proof -
  from assms(1) obtain first rest where word: "word = first # rest" by (cases word) auto
  from assms(2) have "sorted_possibilities U uglish_dict word = returns []"
    by (rule sorted_possibilities_none)
  with assms(3) word show ?thesis by (simp add: guess_Cons Let_def)
qed

section \<open>The segmenter\<close>

lemma is_latin_letter_single: "is_latin_letter [l] = (l \<in> set latin_letters)"
  by (auto simp add: is_latin_letter_def contains_single lish_monograph_def lat_accented_def
      latin_letters_def ascii_def)

lemma is_greek_letter_single: "is_greek_letter [l] = (l \<in> set greek_letters)"
  by (auto simp add: is_greek_letter_def contains_single greek_monograph_def greek_accented_def
      greek_letters_def)

lemma translate_chars_run:
  "list_all (latin_classified U) w \<Longrightarrow>
   translate_chars U uglish_dict (w @ rest) word text_out =
     translate_chars U uglish_dict rest (word @ w) text_out"
  by (induction w arbitrary: word) (simp_all add: latin_classified_def)

lemma translate_chars_out:
  "translate_chars U uglish_dict rest word text_out =
     bindc (translate_chars U uglish_dict rest word []) (\<lambda>r. returns (text_out @ r))"
proof (induction rest arbitrary: word text_out)
  case Nil
  show ?case by (simp add: bindc_assoc)
next
  case (Cons c rest)
  show ?case
  proof (cases "is_latin_letter (lower U [c])")
    case True
    with Cons.IH [of "word @ [c]" text_out] show ?thesis by simp
  next
    case False
    show ?thesis
    proof (cases "word = []")
      case True
      with False Cons.IH [of "[]" "text_out @ [c]"] Cons.IH [of "[]" "[c]"]
      show ?thesis by (simp add: bindc_assoc)
    next
      case nonempty: False
      have "translate_chars U uglish_dict rest [] (text_out @ g @ [c]) =
          bindc (translate_chars U uglish_dict rest [] (g @ [c])) (\<lambda>r. returns (text_out @ r))"
        for g
        using Cons.IH [of "[]" "text_out @ g @ [c]"] Cons.IH [of "[]" "g @ [c]"]
        by (simp add: bindc_assoc)
      with False nonempty show ?thesis by (simp add: bindc_assoc)
    qed
  qed
qed

lemma translate_chars_text:
  "translate_chars U uglish_dict rest [] text_out =
     bindc (translate_text U uglish_dict rest) (\<lambda>r. returns (text_out @ r))"
  unfolding translate_text_def by (rule translate_chars_out)

lemma translate_chars_boundary:
  "\<not> latin_classified U c \<Longrightarrow>
   translate_chars U uglish_dict (before @ c # rest) word text_out =
     bindc (translate_chars U uglish_dict (before @ [c]) word text_out)
       (\<lambda>out. translate_chars U uglish_dict rest [] out)"
proof (induction before arbitrary: word text_out)
  case Nil
  then show ?case by (simp add: latin_classified_def bindc_assoc)
next
  case (Cons b before)
  show ?case
  proof (cases "is_latin_letter (lower U [b])")
    case True
    with Cons.IH [OF Cons.prems, of "word @ [b]" text_out] show ?thesis by simp
  next
    case False
    with Cons.IH [OF Cons.prems, of "[]"] show ?thesis by (simp add: bindc_assoc)
  qed
qed

lemma translate_text_boundary:
  assumes "\<not> latin_classified U c"
  shows "translate_text U uglish_dict (before @ c # rest) =
     bindc (translate_text U uglish_dict (before @ [c])) (\<lambda>b.
     bindc (translate_text U uglish_dict rest) (\<lambda>r. returns (b @ r)))"
proof -
  have "translate_text U uglish_dict (before @ c # rest) =
      bindc (translate_chars U uglish_dict (before @ [c]) [] [])
        (\<lambda>out. translate_chars U uglish_dict rest [] out)"
    unfolding translate_text_def by (rule translate_chars_boundary [OF assms])
  then show ?thesis by (simp add: translate_chars_text bindc_returns_right)
qed

lemma translate_text_word:
  "list_all (latin_classified U) w \<Longrightarrow>
   translate_text U uglish_dict w = flush U uglish_dict w"
  using translate_chars_run [of U w uglish_dict "[]" "[]" "[]"]
  by (simp add: translate_text_def flush_def bindc_returns_right)

lemma translate_text_segment:
  assumes "list_all (latin_classified U) w" and "\<not> latin_classified U c"
  shows "translate_text U uglish_dict (w @ c # rest) =
     bindc (flush U uglish_dict w) (\<lambda>g.
     bindc (translate_text U uglish_dict rest) (\<lambda>r. returns (g @ c # r)))"
proof -
  have "translate_text U uglish_dict (w @ c # rest) =
      translate_chars U uglish_dict (c # rest) w []"
    using translate_chars_run [OF assms(1), of uglish_dict "c # rest" "[]" "[]"]
    by (simp add: translate_text_def)
  also have "\<dots> = bindc (flush U uglish_dict w) (\<lambda>g.
      translate_chars U uglish_dict rest [] (g @ [c]))"
    using assms(2) by (simp add: latin_classified_def flush_def)
  also have "\<dots> = bindc (flush U uglish_dict w) (\<lambda>g.
      bindc (translate_text U uglish_dict rest) (\<lambda>r. returns (g @ c # r)))"
    by (simp add: translate_chars_text)
  finally show ?thesis .
qed

section \<open>Closed examples of a translation\<close>

lemma latin_classified_basic:
  "latin_classified unicode_basic c =
     ((if is_capital c then c + 0x20 else c) \<in> set latin_letters)"
  by (simp add: latin_classified_def unicode_basic_def basic_lower_def is_latin_letter_single)

lemma uglish_forms_evaluated:
  "uglish_forms unicode_basic (ascii ''ta'') = [ascii ''ta'']"
  "uglish_forms unicode_basic (ascii ''Ta'') = [ascii ''ta'']"
  "uglish_forms unicode_basic (ascii ''3'') = [ascii ''3'']"
  by (simp_all add: uglish_forms_def unicode_basic_def basic_lower_def is_capital_def strip_def
      lat_accent_dictionary_eq l2u_dict_eq fan_out_def ascii_def)

lemma tokens_evaluated_words:
  "lat_tokens unicode_basic (ascii ''Ta'') = [ascii ''t'', ascii ''a'']"
  "lat_tokens unicode_basic (ascii ''3'') = [ascii ''3'']"
  "greek_tokens unicode_basic [g_xi] = [[g_xi]]"
  by (simp_all add: lat_tokens_def greek_tokens_def basic_lower_def is_capital_def strip_def
      greek_accent_dictionary_eq lat_accent_dictionary_eq keys_def g2u_dict_eq l2u_dict_eq)

lemma sorted_possibilities_single:
  assumes "find_possibilities U uglish_dict lat_string = returns [g]"
    and "tokens_suffice (enumerate 0 (lat_tokens U lat_string)) (greek_tokens U g)"
  shows "sorted_possibilities U uglish_dict lat_string = returns [g]"
  using assms
  by (simp add: sorted_possibilities_def sort_possibilities_by_length_eq
      sort_possibilities_by_accent_eq sort_possibilities_by_tiebreakers_eq)

lemma sorted_possibilities_evaluated:
  "sorted_possibilities unicode_basic [ascii ''ta'' \<mapsto> [[g_tau, g_alpha]]] (ascii ''ta'') =
     returns [[g_tau, g_alpha]]"
  "sorted_possibilities unicode_basic [ascii ''ta'' \<mapsto> [[g_tau, g_alpha]]] (ascii ''Ta'') =
     returns [[g_tau, g_alpha]]"
  "sorted_possibilities unicode_basic [ascii ''3'' \<mapsto> [[g_xi]]] (ascii ''3'') = returns [[g_xi]]"
proof -
  show "sorted_possibilities unicode_basic [ascii ''ta'' \<mapsto> [[g_tau, g_alpha]]] (ascii ''ta'') =
      returns [[g_tau, g_alpha]]"
    using uglish_forms_evaluated tokens_evaluated_more
    by (intro sorted_possibilities_single)
      (simp_all add: find_possibilities_eq candidates_def tokens_suffice_def tiebreaker_dict_eq)
  show "sorted_possibilities unicode_basic [ascii ''ta'' \<mapsto> [[g_tau, g_alpha]]] (ascii ''Ta'') =
      returns [[g_tau, g_alpha]]"
    using uglish_forms_evaluated tokens_evaluated_more tokens_evaluated_words
    by (intro sorted_possibilities_single)
      (simp_all add: find_possibilities_eq candidates_def tokens_suffice_def tiebreaker_dict_eq)
  show "sorted_possibilities unicode_basic [ascii ''3'' \<mapsto> [[g_xi]]] (ascii ''3'') =
      returns [[g_xi]]"
    using uglish_forms_evaluated tokens_evaluated_words
    by (intro sorted_possibilities_single)
      (simp_all add: find_possibilities_eq candidates_def tokens_suffice_def tiebreaker_dict_eq)
qed

section \<open>Segment boundaries\<close>

text \<open>
  C5, as amended. The single characters that \<open>is_latin_letter\<close> accepts are the letters
  \<open>a\<close> to \<open>z\<close>, the digits 3, 8, 9 and 4 and the twelve accented letters of
  \<open>lat_accented\<close>; those that \<open>is_greek_letter\<close> accepts are the letters of
  \<open>greek_monograph\<close> and \<open>greek_accented\<close>. A character whose lowercase form
  \<open>is_latin_letter\<close> refuses (punctuation, whitespace, the digits other than 3, 4, 8 and
  9) is a segment boundary: it ends the word buffer, which is translated as a whole when
  it is not empty, it is copied to the output as it is, and the text after it is
  translated on its own. A text that is one run of characters whose lowercase form
  \<open>is_latin_letter\<close> accepts is translated as one word. So only the maximal runs of such
  characters are replaced.
\<close>

theorem translate_text_segments:
  "is_latin_letter [l] = (l \<in> set latin_letters)
   \<and> is_greek_letter [l] = (l \<in> set greek_letters)
   \<and> latin_classified U char = is_latin_letter (lower U [char])
   \<and> (list_all (latin_classified U) word \<and> \<not> latin_classified U char \<longrightarrow>
        translate_text U uglish_dict (word @ char # rest) =
          bindc (if word = [] then returns [] else guess U uglish_dict word) (\<lambda>g.
          bindc (translate_text U uglish_dict rest) (\<lambda>r. returns (g @ char # r))))
   \<and> (list_all (latin_classified U) word \<longrightarrow>
        translate_text U uglish_dict word =
          (if word = [] then returns [] else guess U uglish_dict word))"
proof (intro conjI impI)
  show "is_latin_letter [l] = (l \<in> set latin_letters)" by (rule is_latin_letter_single)
  show "is_greek_letter [l] = (l \<in> set greek_letters)" by (rule is_greek_letter_single)
  show "latin_classified U char = is_latin_letter (lower U [char])"
    by (rule latin_classified_def)
next
  assume "list_all (latin_classified U) word \<and> \<not> latin_classified U char"
  then have "list_all (latin_classified U) word" and "\<not> latin_classified U char" by simp_all
  then show "translate_text U uglish_dict (word @ char # rest) =
      bindc (if word = [] then returns [] else guess U uglish_dict word) (\<lambda>g.
      bindc (translate_text U uglish_dict rest) (\<lambda>r. returns (g @ char # r)))"
    unfolding flush_def [symmetric] by (rule translate_text_segment)
next
  assume "list_all (latin_classified U) word"
  then show "translate_text U uglish_dict word =
      (if word = [] then returns [] else guess U uglish_dict word)"
    unfolding flush_def [symmetric] by (rule translate_text_word)
qed

theorem translate_text_segments_witness:
  "translate_text unicode_basic [ascii ''ta'' \<mapsto> [[g_tau, g_alpha]]] (ascii ''ta, 5'') =
     returns ([g_tau, g_alpha] @ ascii '', 5'')"
proof -
  let ?d = "[ascii ''ta'' \<mapsto> [[g_tau, g_alpha]]]"
  have word: "list_all (latin_classified unicode_basic) (ascii ''ta'') \<and>
      \<not> latin_classified unicode_basic 0x2C"
    by (simp add: latin_classified_basic is_capital_def latin_letters_def ascii_def)
  have rest: "translate_text unicode_basic ?d (ascii '' 5'') = returns (ascii '' 5'')"
    by (simp add: translate_text_def ascii_def unicode_basic_def basic_lower_def is_capital_def
        is_latin_letter_single latin_letters_def)
  have guess: "guess unicode_basic ?d (ascii ''ta'') = returns [g_tau, g_alpha]"
    using sorted_possibilities_evaluated(1)
    by (simp add: guess_def ascii_def unicode_basic_def basic_isupper_def is_capital_def)
  have "translate_text unicode_basic ?d (ascii ''ta'' @ 0x2C # ascii '' 5'') =
      bindc (if ascii ''ta'' = [] then returns [] else guess unicode_basic ?d (ascii ''ta''))
        (\<lambda>g. bindc (translate_text unicode_basic ?d (ascii '' 5''))
          (\<lambda>r. returns (g @ 0x2C # r)))"
    using word
    by (intro translate_text_segments [where U = unicode_basic and char = 44
          and word = "ascii ''ta''" and uglish_dict = ?d and rest = "ascii '' 5''",
          THEN conjunct2, THEN conjunct2, THEN conjunct2, THEN conjunct1, THEN mp])
  with rest guess show ?thesis by (simp add: ascii_def)
qed

text \<open>
  C5 as stated fails for the digits 3, 4, 8 and 9, which are words of \<open>lish_monograph\<close>:
  the digit 3 is classified as a Latin letter, and with the index that holds the letter
  xi for the canonical form \<open>3\<close> the text \<open>3\<close> is translated to xi: the digit is no
  segment boundary and is not copied to the output.
\<close>

theorem digit_three_is_latin_counterexample:
  "latin_classified unicode_basic 0x33
   \<and> \<not> is_greek_letter [0x33]
   \<and> translate_text unicode_basic [ascii ''3'' \<mapsto> [[g_xi]]] (ascii ''3'') = returns [g_xi]"
proof (intro conjI)
  show "latin_classified unicode_basic 0x33"
    by (simp add: latin_classified_basic is_capital_def latin_letters_def ascii_def)
  show "\<not> is_greek_letter [0x33]"
    by (simp add: is_greek_letter_single greek_letters_def)
  have "list_all (latin_classified unicode_basic) (ascii ''3'')"
    by (simp add: latin_classified_basic is_capital_def latin_letters_def ascii_def)
  then have "translate_text unicode_basic [ascii ''3'' \<mapsto> [[g_xi]]] (ascii ''3'') =
      flush unicode_basic [ascii ''3'' \<mapsto> [[g_xi]]] (ascii ''3'')"
    by (rule translate_text_word)
  also have "\<dots> = returns [g_xi]"
    using sorted_possibilities_evaluated(3)
    by (simp add: flush_def guess_def ascii_def unicode_basic_def basic_isupper_def
        is_capital_def)
  finally show "translate_text unicode_basic [ascii ''3'' \<mapsto> [[g_xi]]] (ascii ''3'') =
      returns [g_xi]" .
qed

section \<open>A word without candidates\<close>

text \<open>
  C3. For a word buffer (not empty, of characters that the segmenter takes as Latin) for
  which \<open>find_possibilities\<close> returns no candidate, over a Unicode interface in which the
  uppercase form of an uppercase character is the character itself (as in CPython),
  \<open>guess\<close> returns the word itself and raises no error, and \<open>translate_text\<close> puts the
  word itself in its place: when the word is the whole text, when it begins the text,
  when it ends the text and when it stands between two segment boundaries, the
  characters around it being translated on their own.
\<close>

theorem lookup_miss_echoes_word:
  assumes "word \<noteq> []"
    and "list_all (latin_classified U) word"
    and "find_possibilities U uglish_dict word = returns []"
    and "isupper U [hd word] \<longrightarrow> upper U [hd word] = [hd word]"
  shows "guess U uglish_dict word = returns word
     \<and> translate_text U uglish_dict word = returns word
     \<and> (\<not> latin_classified U c \<longrightarrow>
          translate_text U uglish_dict (word @ c # after) =
            bindc (translate_text U uglish_dict after) (\<lambda>r. returns (word @ c # r)))
     \<and> (\<not> latin_classified U b \<longrightarrow>
          translate_text U uglish_dict (before @ b # word) =
            bindc (translate_text U uglish_dict (before @ [b])) (\<lambda>p. returns (p @ word)))
     \<and> (\<not> latin_classified U b \<and> \<not> latin_classified U c \<longrightarrow>
          translate_text U uglish_dict (before @ b # word @ c # after) =
            bindc (translate_text U uglish_dict (before @ [b])) (\<lambda>p.
            bindc (translate_text U uglish_dict after) (\<lambda>r. returns (p @ word @ c # r))))"
proof -
  have guess: "guess U uglish_dict word = returns word"
    using assms(1,3,4) by (rule guess_fallback)
  with assms(1) have flush: "flush U uglish_dict word = returns word"
    by (simp add: flush_def)
  have whole: "translate_text U uglish_dict word = returns word"
    using translate_text_word [OF assms(2)] flush by simp
  have first: "translate_text U uglish_dict (word @ c # after) =
      bindc (translate_text U uglish_dict after) (\<lambda>r. returns (word @ c # r))"
    if "\<not> latin_classified U c" for c after
    using translate_text_segment [OF assms(2) that] flush by simp
  have last: "translate_text U uglish_dict (before @ b # word) =
      bindc (translate_text U uglish_dict (before @ [b])) (\<lambda>p. returns (p @ word))"
    if "\<not> latin_classified U b" for b
    using translate_text_boundary [OF that, of uglish_dict before word] whole by simp
  have middle: "translate_text U uglish_dict (before @ b # word @ c # after) =
      bindc (translate_text U uglish_dict (before @ [b])) (\<lambda>p.
      bindc (translate_text U uglish_dict after) (\<lambda>r. returns (p @ word @ c # r)))"
    if "\<not> latin_classified U b" and "\<not> latin_classified U c" for b c
    using translate_text_boundary [OF that(1), of uglish_dict before "word @ c # after"]
      first [OF that(2)]
    by (simp add: bindc_assoc)
  from guess whole first last middle show ?thesis by simp
qed

theorem lookup_miss_echoes_word_witness:
  "translate_text unicode_basic Map.empty (ascii ''(Ta!'') = returns (ascii ''(Ta!'')"
proof -
  have word: "ascii ''Ta'' \<noteq> []" "list_all (latin_classified unicode_basic) (ascii ''Ta'')"
    by (simp_all add: latin_classified_basic is_capital_def latin_letters_def ascii_def)
  have miss: "find_possibilities unicode_basic Map.empty (ascii ''Ta'') = returns []"
    by (simp add: find_possibilities_eq candidates_def)
  have upper: "isupper unicode_basic [hd (ascii ''Ta'')] \<longrightarrow>
      upper unicode_basic [hd (ascii ''Ta'')] = [hd (ascii ''Ta'')]"
    by (simp add: unicode_basic_def basic_upper_def ascii_def)
  have bounds: "\<not> latin_classified unicode_basic 0x28 \<and> \<not> latin_classified unicode_basic 0x21"
    by (simp add: latin_classified_basic is_capital_def latin_letters_def ascii_def)
  have before: "translate_text unicode_basic Map.empty ([] @ [0x28]) = returns [0x28]"
    by (simp add: translate_text_def unicode_basic_def basic_lower_def is_capital_def
        is_latin_letter_single latin_letters_def ascii_def)
  have after: "translate_text unicode_basic Map.empty [] = returns []"
    by (simp add: translate_text_def)
  from lookup_miss_echoes_word [OF word miss upper, where b = 40 and c = 33
      and before = "[]" and after = "[]",
      THEN conjunct2, THEN conjunct2, THEN conjunct2, THEN conjunct2, THEN mp, OF bounds]
  have "translate_text unicode_basic Map.empty ([] @ 0x28 # ascii ''Ta'' @ 0x21 # []) =
      bindc (translate_text unicode_basic Map.empty ([] @ [0x28])) (\<lambda>p.
      bindc (translate_text unicode_basic Map.empty []) (\<lambda>r. returns (p @ ascii ''Ta'' @ 0x21 # r)))" .
  with before after show ?thesis by (simp add: ascii_def)
qed

section \<open>Capitalization\<close>



end
